theory Spec2Isabelle
  imports Main
begin

section \<open>Worker supervision of the anaconda JSON server (anaconda\_lib/worker.py)\<close>

text \<open>
  The module talks to sockets, child processes, the editor's settings and the vagrant
  status checker.  The embedding makes that environment explicit: a \<open>world\<close> record holds
  the answers the environment gives (oracles, never written by the code) and the effects
  the code has on it (logs and counters, only ever extended).  A worker object is a record;
  a method takes the pair (self, world) and returns an outcome: it returns a value, raises
  an exception, or does not return within the given number of loop iterations.  The state
  reached is kept in the first two cases, since Python's \<open>except\<close> handlers continue from
  the state at the raise.
\<close>

subsection \<open>Values of the environment\<close>

datatype error =
    AttributeError
  | KeyError
  | TypeError
  | RuntimeError
  | RecursionError
  | SpawnError

datatype ('a, 's) outcome =
    Return 'a 's
  | Raise error 's
  | Diverge

text \<open>Result of one TCP connect: success, errno ECONNREFUSED, or another socket error.\<close>

datatype conn_result = Connected | Refused | Failed

text \<open>
  What the try block of \<open>server_is_healthy\<close> yields: an exception somewhere in the
  exchange (connect, timeout, send, receive, decode), or the decoded data.
\<close>

datatype pyval = PBytes string | PStr string | PNone

datatype reply = ExchangeRaises | Decoded pyval

text \<open>A value of the editor's settings: a list of strings, a string, or anything else.\<close>

datatype setting = SList "string list" | SStr string | SOther

datatype message =
    ExtraPathsIsString
  | VagrantDeactivated
  | DirectoryMissing string
  | ConfigInvalid

datatype log_entry =
    LogUnexpectedSocketError
  | LogPortInUse "int option"
  | LogStarting
  | LogError error
  | LogTraceback
  | LogVagrant string

text \<open>
  The \<open>vagrant_environment\<close> setting.  A key that is absent reads as \<open>None\<close> through
  \<open>dict.get\<close> and raises KeyError through indexing; values that are present have the
  types of the configuration schema.
\<close>

record network_config =
  address :: "string option"
  nport :: "int option"
  mode :: "string option"

record vagrant_config =
  directory :: "string option"
  network :: "network_config option"
  machine :: "string option"

text \<open>
  The behaviour of \<open>VagrantStatus(callback, directory, machine)\<close>, which lives in the
  vagrant module: its constructor raises, or it calls the callback with a result
  (success, out, error) after some number of polls of the waiting thread, or never.
\<close>

datatype vagrant_run =
    VagrantRaises error
  | VagrantReports nat "bool \<times> string \<times> string"
  | VagrantSilent

type_synonym handle = nat
type_synonym callback = string
type_synonym kwargs = "(string \<times> string) list"

record rpc_client =
  cid :: nat
  chost :: string
  cport :: int

record world =
  net :: "nat \<Rightarrow> conn_result"
  exchange :: "nat \<Rightarrow> reply"
  poll :: "handle \<Rightarrow> int option"
  ephemeral :: "nat \<Rightarrow> int"
  spawn_fails :: "string list \<Rightarrow> bool"
  client_connected :: "nat \<Rightarrow> bool"
  vagrant_environment :: "vagrant_config option"
  extra_paths :: "setting option"
  python_interpreter :: "setting option"
  folders :: "string list"
  project :: string
  pid :: nat
  window_id :: int
  module_dir :: string
  sep :: string
  path_join :: "string \<Rightarrow> string \<Rightarrow> string"
  expanduser :: "string \<Rightarrow> string"
  path_exists :: "string \<Rightarrow> bool"
  vagrant :: vagrant_run
  recursion_limit :: nat
  connections :: "(string \<times> int) list"
  allocs :: nat
  spawned :: "string list list"
  killed :: "handle list"
  clients :: nat
  closed_clients :: "nat list"
  sent :: "(nat \<times> callback \<times> kwargs) list"
  messages :: "message list"
  logged :: "log_entry list"

text \<open>
  Oracles: \<open>net s n\<close> is the result of the connect made when \<open>n\<close> connections were
  opened before it, \<open>exchange s n\<close> the result of a health exchange at that moment,
  \<open>poll s h\<close> the return code of process \<open>h\<close> (\<open>None\<close> while it runs),
  \<open>ephemeral s n\<close> the port the system hands out at the \<open>n\<close>-th allocation,
  \<open>client_connected s c\<close> the \<open>connected\<close> attribute of client \<open>c\<close>,
  \<open>recursion_limit s\<close> the number of nested calls of \<open>sanitize_server\<close> that fit
  under the interpreter's recursion limit.
  Effects: \<open>connections\<close> lists every endpoint a socket was connected to, \<open>allocs\<close>
  counts port allocations, \<open>spawned\<close> lists the argument vectors of the processes
  created (the handle of a process is its index), \<open>killed\<close> the handles killed,
  \<open>clients\<close> counts the RPC clients built, \<open>sent\<close> lists the commands sent.
\<close>

subsection \<open>Worker objects\<close>

datatype kind = Local | Remote

record worker =
  kind :: kind
  hostname :: "string option"
  available_port :: "int option"
  reconnecting :: bool
  last_error :: "error option"
  process :: "handle option"
  client :: "rpc_client option"
  config :: "vagrant_config option"
  support :: "bool option"

text \<open>
  \<open>config\<close> and \<open>support\<close> are attributes of RemoteWorker only; \<open>support = None\<close> is
  the attribute not assigned yet.
\<close>

type_synonym wstate = "worker \<times> world"

definition BaseWorker_init :: "kind \<Rightarrow> worker" where
  "BaseWorker_init k =
     \<lparr> kind = k, hostname = Some ''localhost'', available_port = None,
       reconnecting = False, last_error = None, process = None, client = None,
       config = None, support = None \<rparr>"

definition log_entry_add :: "log_entry \<Rightarrow> world \<Rightarrow> world" where
  "log_entry_add e s = s\<lparr>logged := logged s @ [e]\<rparr>"

definition error_message :: "message \<Rightarrow> world \<Rightarrow> world" where
  "error_message m s = s\<lparr>messages := messages s @ [m]\<rparr>"

subsection \<open>BaseWorker\<close>

text \<open>
  \<open>server_is_active\<close>: one connect to (hostname, available\_port).  Only socket errors
  are caught; an endpoint that is not a (string, integer) pair makes \<open>connect\<close> raise
  TypeError before anything is opened.
\<close>

definition server_is_active :: "wstate \<Rightarrow> (bool, wstate) outcome" where
  "server_is_active ws =
     (case ws of (w, s) \<Rightarrow>
        (case hostname w of
           None \<Rightarrow> Raise TypeError (w, s)
         | Some h \<Rightarrow>
            (case available_port w of
               None \<Rightarrow> Raise TypeError (w, s)
             | Some p \<Rightarrow>
                (let s' = s\<lparr>connections := connections s @ [(h, p)]\<rparr> in
                 case net s (length (connections s)) of
                   Connected \<Rightarrow> Return True (w, s')
                 | Refused \<Rightarrow> Return False (w, s')
                 | Failed \<Rightarrow> Return False (w, log_entry_add LogUnexpectedSocketError s')))))"

text \<open>
  \<open>server_is_healthy\<close>: \<open>self.process.poll()\<close> is outside the try block, so a worker
  without a process raises AttributeError.  Inside the try block every exception gives
  False.
\<close>

definition server_is_healthy :: "wstate \<Rightarrow> (bool, wstate) outcome" where
  "server_is_healthy ws =
     (case ws of (w, s) \<Rightarrow>
        (case process w of
           None \<Rightarrow> Raise AttributeError (w, s)
         | Some h \<Rightarrow>
            (case poll s h of
               None \<Rightarrow>
                 (case hostname w of
                    None \<Rightarrow> Return False (w, s)
                  | Some hn \<Rightarrow>
                     (case available_port w of
                        None \<Rightarrow> Return False (w, s)
                      | Some p \<Rightarrow>
                         (let s' = s\<lparr>connections := connections s @ [(hn, p)]\<rparr> in
                          case exchange s (length (connections s)) of
                            ExchangeRaises \<Rightarrow> Return False (w, s')
                          | Decoded data \<Rightarrow> Return (data = PBytes ''Ok'') (w, s'))))
             | Some rc \<Rightarrow>
                 Return False (w, log_entry_add (LogPortInUse (available_port w)) s))))"

text \<open>
  \<open>start_json_server\<close> calls \<open>self.sanitize_server()\<close> and \<open>self.build_server()\<close>, which
  BaseWorker does not define: they are the subclass's methods, parameters here.
\<close>

definition start_json_server ::
  "(wstate \<Rightarrow> (unit, wstate) outcome) \<Rightarrow> (wstate \<Rightarrow> (unit, wstate) outcome) \<Rightarrow>
   wstate \<Rightarrow> (unit, wstate) outcome" where
  "start_json_server sanitize_server build_server ws =
     (case server_is_active ws of
        Return active ws1 \<Rightarrow>
          (if active then
             (case server_is_healthy ws1 of
                Return healthy ws2 \<Rightarrow>
                  (if healthy then Return () ws2 else sanitize_server ws2)
              | Raise e ws2 \<Rightarrow> Raise e ws2
              | Diverge \<Rightarrow> Diverge)
           else
             (case ws1 of (w1, s1) \<Rightarrow> build_server (w1, log_entry_add LogStarting s1)))
      | Raise e ws1 \<Rightarrow> Raise e ws1
      | Diverge \<Rightarrow> Diverge)"

subsection \<open>Collaborators outside the module\<close>

text \<open>
  Modelled from the spec: \<open>create_subprocess\<close> of the helpers module.  Process creation
  either fails (SpawnError) or gives the handle of a new child process.
\<close>

definition create_subprocess :: "string list \<Rightarrow> world \<Rightarrow> (handle, world) outcome" where
  "create_subprocess args s =
     (if spawn_fails s args then Raise SpawnError s
      else Return (length (spawned s)) (s\<lparr>spawned := spawned s @ [args]\<rparr>))"

text \<open>
  Modelled from the spec: the RPC client of the jsonclient module, with its interface
  \<open>connected\<close>, \<open>send_command\<close> and \<open>close\<close>.  The worker passes only the port to the
  constructor; the client's host is the loopback name.
\<close>

definition AsynClient :: "int \<Rightarrow> world \<Rightarrow> rpc_client \<times> world" where
  "AsynClient p s =
     (\<lparr> cid = clients s, chost = ''localhost'', cport = p \<rparr>, s\<lparr>clients := Suc (clients s)\<rparr>)"

definition client_close :: "rpc_client \<Rightarrow> world \<Rightarrow> world" where
  "client_close c s = s\<lparr>closed_clients := closed_clients s @ [cid c]\<rparr>"

definition send_command :: "rpc_client \<Rightarrow> callback \<Rightarrow> kwargs \<Rightarrow> world \<Rightarrow> world" where
  "send_command c cb data s = s\<lparr>sent := sent s @ [(cid c, cb, data)]\<rparr>"

definition process_kill :: "handle \<Rightarrow> world \<Rightarrow> world" where
  "process_kill h s = s\<lparr>killed := killed s @ [h]\<rparr>"

subsection \<open>Strings\<close>

fun digits :: "nat \<Rightarrow> string" where
  "digits n =
     (if n < 10 then [''0123456789'' ! n]
      else digits (n div 10) @ [''0123456789'' ! (n mod 10)])"

definition str_int :: "int \<Rightarrow> string" where
  "str_int i = (if i < 0 then ''-'' @ digits (nat (- i)) else digits (nat i))"

definition str_port :: "int option \<Rightarrow> string" where
  "str_port p = (case p of None \<Rightarrow> ''None'' | Some i \<Rightarrow> str_int i)"

fun split_comma :: "string \<Rightarrow> string list" where
  "split_comma [] = [[]]"
| "split_comma (c # cs) =
     (if c = CHR '','' then [] # split_comma cs
      else (case split_comma cs of [] \<Rightarrow> [[c]] | p # ps \<Rightarrow> (c # p) # ps))"

fun join_comma :: "string list \<Rightarrow> string" where
  "join_comma [] = []"
| "join_comma [p] = p"
| "join_comma (p # q # ps) = p @ '','' @ join_comma (q # ps)"

subsection \<open>LocalWorker\<close>

text \<open>The \<open>port\<close> property: bind port 0, read the port the system chose, close.\<close>

definition LocalWorker_port :: "world \<Rightarrow> int \<times> world" where
  "LocalWorker_port s = (ephemeral s (allocs s), s\<lparr>allocs := Suc (allocs s)\<rparr>)"

text \<open>The statement \<open>self.available_port = self.port\<close>.\<close>

definition LocalWorker_assign_port :: "wstate \<Rightarrow> wstate" where
  "LocalWorker_assign_port ws =
     (case ws of (w, s) \<Rightarrow>
        (case LocalWorker_port s of (p, s') \<Rightarrow> (w\<lparr>available_port := Some p\<rparr>, s')))"

text \<open>
  The first try block of \<open>build_server\<close>: the \<open>extra_paths\<close> setting (default the empty
  list) extended by the window's folders.  A string has no \<open>extend\<close>: the handler shows a
  message and splits it at the commas.  Any other value has neither \<open>extend\<close> nor
  \<open>split\<close>, and the AttributeError of the handler leaves \<open>build_server\<close>.
\<close>

definition build_server_paths :: "world \<Rightarrow> (string list, world) outcome" where
  "build_server_paths s =
     (case (case extra_paths s of None \<Rightarrow> SList [] | Some v \<Rightarrow> v) of
        SList ps \<Rightarrow> Return (ps @ folders s) s
      | SStr str \<Rightarrow> Return (split_comma str @ folders s) (error_message ExtraPathsIsString s)
      | SOther \<Rightarrow> Raise AttributeError (error_message ExtraPathsIsString s))"

text \<open>
  The second try block: \<open>expanduser\<close> of the \<open>python_interpreter\<close> setting (default
  \<open>python\<close>); on any exception, \<open>python\<close>.
\<close>

definition build_server_python :: "world \<Rightarrow> string" where
  "build_server_python s =
     (case python_interpreter s of
        None \<Rightarrow> expanduser s ''python''
      | Some (SStr p) \<Rightarrow> expanduser s p
      | Some _ \<Rightarrow> ''python'')"

definition LocalWorker_build_server :: "wstate \<Rightarrow> (unit, wstate) outcome" where
  "LocalWorker_build_server ws =
     (case ws of (w, s) \<Rightarrow>
        (let script_file =
               path_join s (module_dir s) (''../anaconda_server'' @ sep s @ ''jsonserver.py'')
         in case build_server_paths s of
              Raise e s1 \<Rightarrow> Raise e (w, s1)
            | Diverge \<Rightarrow> Diverge
            | Return paths s1 \<Rightarrow>
               (let python = build_server_python s1;
                    args = [python, ''-B'', script_file, ''-p'', project s1,
                            str_port (available_port w)]
                           @ (if paths \<noteq> [] then [''-e'', join_comma paths] else [])
                           @ [digits (pid s1)]
                in case create_subprocess args s1 of
                     Return h s2 \<Rightarrow> Return () (w\<lparr>process := Some h\<rparr>, s2)
                   | Raise e s2 \<Rightarrow> Raise e (w, s2)
                   | Diverge \<Rightarrow> Diverge)))"

text \<open>
  \<open>sanitize_server\<close> and \<open>start_json_server\<close> call each other, for as long as the
  endpoint is reachable and not healthy.  Python bounds the depth of that recursion: the
  call that exceeds the recursion limit raises RecursionError.  The first argument is the
  number of nested calls of \<open>sanitize_server\<close> still allowed; the raise is placed at
  the entry of the call that exceeds it.
\<close>

fun LocalWorker_sanitize_server :: "nat \<Rightarrow> wstate \<Rightarrow> (unit, wstate) outcome" where
  "LocalWorker_sanitize_server 0 = (\<lambda>ws. Raise RecursionError ws)"
| "LocalWorker_sanitize_server (Suc n) = (\<lambda>ws.
     case ws of (w, s) \<Rightarrow>
       (case client w of
          None \<Rightarrow> Raise AttributeError (w, s)
        | Some c \<Rightarrow>
           (let s1 = client_close c s in
            case process w of
              None \<Rightarrow> Raise AttributeError (w, s1)
            | Some h \<Rightarrow>
               start_json_server (LocalWorker_sanitize_server n) LocalWorker_build_server
                 (w, process_kill h s1))))"

text \<open>
  \<open>start_json_server\<close> of a LocalWorker, called from \<open>start\<close>: the nesting allowed is
  the one the interpreter allows.
\<close>

definition LocalWorker_start_json_server :: "wstate \<Rightarrow> (unit, wstate) outcome" where
  "LocalWorker_start_json_server ws =
     start_json_server (LocalWorker_sanitize_server (recursion_limit (snd ws)))
       LocalWorker_build_server ws"

text \<open>The loop \<open>while not self.server_is_active(): time.sleep(0.01)\<close>.\<close>

fun wait_active :: "nat \<Rightarrow> wstate \<Rightarrow> (unit, wstate) outcome" where
  "wait_active 0 ws = Diverge"
| "wait_active (Suc n) ws =
     (case server_is_active ws of
        Return active ws' \<Rightarrow> (if active then Return () ws' else wait_active n ws')
      | Raise e ws' \<Rightarrow> Raise e ws'
      | Diverge \<Rightarrow> Diverge)"

text \<open>The statement \<open>self.client = AsynClient(self.available_port)\<close>.\<close>

definition bind_client :: "wstate \<Rightarrow> (unit, wstate) outcome" where
  "bind_client ws =
     (case ws of (w, s) \<Rightarrow>
        (case available_port w of
           None \<Rightarrow> Raise TypeError (w, s)
         | Some p \<Rightarrow> (case AsynClient p s of (c, s') \<Rightarrow> Return () (w\<lparr>client := Some c\<rparr>, s'))))"

text \<open>The body of the try block of \<open>LocalWorker.start\<close>.\<close>

definition LocalWorker_start_try :: "nat \<Rightarrow> wstate \<Rightarrow> (unit, wstate) outcome" where
  "LocalWorker_start_try fuel ws =
     (let ws1 = (if reconnecting (fst ws) then LocalWorker_assign_port ws else ws) in
      case LocalWorker_start_json_server ws1 of
        Return u ws2 \<Rightarrow>
          (case wait_active fuel ws2 of
             Return u' ws3 \<Rightarrow> bind_client ws3
           | Raise e ws3 \<Rightarrow> Raise e ws3
           | Diverge \<Rightarrow> Diverge)
      | Raise e ws2 \<Rightarrow> Raise e ws2
      | Diverge \<Rightarrow> Diverge)"

text \<open>
  \<open>LocalWorker.start\<close>.  \<open>not self.available_port\<close> holds for \<open>None\<close> and for 0.  The
  handler catches every exception of the try block, the RecursionError of an endpoint
  that stays reachable and unhealthy included, logs it and the traceback, and returns.
  The argument bounds the iterations of the waiting loop, which has no bound of its own.
\<close>

definition LocalWorker_start :: "nat \<Rightarrow> wstate \<Rightarrow> (unit, wstate) outcome" where
  "LocalWorker_start fuel ws =
     (let ws1 = (if available_port (fst ws) = None \<or> available_port (fst ws) = Some 0
                 then LocalWorker_assign_port ws else ws)
      in case LocalWorker_start_try fuel ws1 of
           Return u ws2 \<Rightarrow> Return () ws2
         | Raise e ws2 \<Rightarrow>
             (case ws2 of (w2, s2) \<Rightarrow>
                Return () (w2, log_entry_add LogTraceback (log_entry_add (LogError e) s2)))
         | Diverge \<Rightarrow> Diverge)"

text \<open>\<open>LocalWorker._execute\<close>: nothing happens when no client is bound.\<close>

definition LocalWorker__execute ::
  "nat \<Rightarrow> callback \<Rightarrow> kwargs \<Rightarrow> wstate \<Rightarrow> (unit, wstate) outcome" where
  "LocalWorker__execute fuel cb data ws =
     (case ws of (w, s) \<Rightarrow>
        (case client w of
           None \<Rightarrow> Return () (w, s)
         | Some c \<Rightarrow>
            (if \<not> client_connected s (cid c) then
               (case LocalWorker_start fuel (w\<lparr>reconnecting := True\<rparr>, s) of
                  Return u (w', s') \<Rightarrow>
                    (case client w' of
                       None \<Rightarrow> Raise AttributeError (w', s')
                     | Some c' \<Rightarrow> Return () (w', send_command c' cb data s'))
                | Raise e ws' \<Rightarrow> Raise e ws'
                | Diverge \<Rightarrow> Diverge)
             else Return () (w, send_command c cb data s))))"

subsection \<open>RemoteWorker\<close>

text \<open>
  \<open>check_config\<close>.  \<open>self.config.get(k)\<close> is falsy for an absent key, an empty string
  and an empty dictionary; \<open>self.config['network']\<close> raises KeyError when the key is
  absent.
\<close>

definition check_config :: "wstate \<Rightarrow> (bool, wstate) outcome" where
  "check_config ws =
     (case ws of (w, s) \<Rightarrow>
        (case config w of
           None \<Rightarrow> Raise AttributeError (w, s)
         | Some c \<Rightarrow>
            (let success1 =
                   (if directory c = None \<or> directory c = Some []
                       \<or> network c = None
                       \<or> network c = Some \<lparr>address = None, nport = None, mode = None\<rparr>
                    then False else True)
             in case network c of
                  None \<Rightarrow> Raise KeyError (w, s)
                | Some n \<Rightarrow>
                   (let success2 = (if mode n = None then False else success1);
                        success3 = (if nport n = None then False else success2)
                    in if success3 = False
                       then Return success3 (w\<lparr>support := Some False\<rparr>, error_message ConfigInvalid s)
                       else Return success3 (w, s)))))"

text \<open>The \<open>port\<close> property: \<open>self.config['network'].get('port', 19360)\<close>.\<close>

definition RemoteWorker_port :: "wstate \<Rightarrow> (int, wstate) outcome" where
  "RemoteWorker_port ws =
     (case ws of (w, s) \<Rightarrow>
        (case config w of
           None \<Rightarrow> Raise TypeError (w, s)
         | Some c \<Rightarrow>
            (case network c of
               None \<Rightarrow> Raise KeyError (w, s)
             | Some n \<Rightarrow> Return (case nport n of None \<Rightarrow> 19360 | Some p \<Rightarrow> p) (w, s))))"

text \<open>
  \<open>check_status\<close>.  The nested function \<open>status\<close> assigns to \<open>checked\<close> and has no
  \<open>nonlocal\<close> declaration, so in Python that name is a variable of \<open>status\<close> itself:
  \<open>status\<close> returns the state it leaves and the value of its own \<open>checked\<close>, and the
  variable \<open>checked\<close> of \<open>check_status\<close>, which the loop reads, is a different one.
\<close>

definition status :: "bool \<times> string \<times> string \<Rightarrow> wstate \<Rightarrow> wstate \<times> bool" where
  "status result ws =
     (case ws of (w, s) \<Rightarrow>
        (case result of (success, out, err) \<Rightarrow>
           (if \<not> success
            then ((w\<lparr>support := Some False\<rparr>, log_entry_add (LogVagrant err) s), True)
            else ((w, s), True))))"

text \<open>
  The loop \<open>while not checked: time.sleep(0.01)\<close>, the callback running (in the status
  checker's thread) before the test number \<open>t\<close> of the condition when it is due then.
\<close>

fun check_status_wait :: "nat \<Rightarrow> nat \<Rightarrow> bool \<Rightarrow> wstate \<Rightarrow> (unit, wstate) outcome" where
  "check_status_wait 0 t checked ws = Diverge"
| "check_status_wait (Suc n) t checked ws =
     (let ws' = (case vagrant (snd ws) of
                   VagrantReports due result \<Rightarrow>
                     (if due = t then fst (status result ws) else ws)
                 | VagrantRaises e \<Rightarrow> ws
                 | VagrantSilent \<Rightarrow> ws)
      in if checked then Return () ws' else check_status_wait n (Suc t) checked ws')"

definition check_status :: "nat \<Rightarrow> wstate \<Rightarrow> (unit, wstate) outcome" where
  "check_status fuel ws =
     (case ws of (w, s) \<Rightarrow>
        (let checked = False in
         case config w of
           None \<Rightarrow> Raise TypeError (w, s)
         | Some c \<Rightarrow>
            (case directory c of
               None \<Rightarrow> Raise KeyError (w, s)
             | Some d \<Rightarrow>
                (case machine c of
                   None \<Rightarrow> Raise KeyError (w, s)
                 | Some m \<Rightarrow>
                    (case vagrant s of
                       VagrantRaises e \<Rightarrow> Raise e (w, s)
                     | VagrantReports due result \<Rightarrow> check_status_wait fuel 0 checked (w, s)
                     | VagrantSilent \<Rightarrow> check_status_wait fuel 0 checked (w, s))))))"

text \<open>
  \<open>RemoteWorker.__init__\<close>.  A constructor that raises leaves no object, so only the
  world is kept then.
\<close>

definition RemoteWorker_init :: "nat \<Rightarrow> world \<Rightarrow> (worker, world) outcome" where
  "RemoteWorker_init fuel s =
     (let w0 = (BaseWorker_init Remote)\<lparr>config := vagrant_environment s\<rparr> in
      case check_config (w0, s) of
        Raise e (w1, s1) \<Rightarrow> Raise e s1
      | Diverge \<Rightarrow> Diverge
      | Return ok (w1, s1) \<Rightarrow>
         (case config w1 of
            None \<Rightarrow> Raise TypeError s1
          | Some c \<Rightarrow>
             (case network c of
                None \<Rightarrow> Raise KeyError s1
              | Some n \<Rightarrow>
                 (case RemoteWorker_port (w1\<lparr>hostname := address n\<rparr>, s1) of
                    Raise e (w2, s2) \<Rightarrow> Raise e s2
                  | Diverge \<Rightarrow> Diverge
                  | Return p (w2, s2) \<Rightarrow>
                     (case check_status fuel (w2\<lparr>available_port := Some p\<rparr>, s2) of
                        Raise e (w3, s3) \<Rightarrow> Raise e s3
                      | Diverge \<Rightarrow> Diverge
                      | Return u (w3, s3) \<Rightarrow> Return (w3\<lparr>support := Some True\<rparr>) s3)))))"

text \<open>
  The loop of \<open>RemoteWorker.start\<close>; the result tells whether it ended by its condition
  (True) or by the \<open>return\<close> in its body (False).
\<close>

fun RemoteWorker_wait :: "nat \<Rightarrow> wstate \<Rightarrow> (bool, wstate) outcome" where
  "RemoteWorker_wait 0 ws = Diverge"
| "RemoteWorker_wait (Suc n) ws =
     (case server_is_active ws of
        Return active ws' \<Rightarrow>
          (if active then Return True ws'
           else if support (fst ws') \<noteq> Some True then Return False ws'
           else RemoteWorker_wait n ws')
      | Raise e ws' \<Rightarrow> Raise e ws'
      | Diverge \<Rightarrow> Diverge)"

definition RemoteWorker_start :: "nat \<Rightarrow> wstate \<Rightarrow> (unit, wstate) outcome" where
  "RemoteWorker_start fuel ws =
     (case ws of (w, s) \<Rightarrow>
        (case support w of
           None \<Rightarrow> Raise AttributeError (w, s)
         | Some supported \<Rightarrow>
            (if supported = False
             then Return () (w\<lparr>support := Some False\<rparr>, error_message VagrantDeactivated s)
             else
               (case config w of
                  None \<Rightarrow> Raise TypeError (w, s)
                | Some c \<Rightarrow>
                   (case directory c of
                      None \<Rightarrow> Raise KeyError (w, s)
                    | Some d \<Rightarrow>
                       (if \<not> path_exists s (expanduser s d)
                        then Return () (w, error_message (DirectoryMissing d) s)
                        else
                          (case RemoteWorker_wait fuel (w, s) of
                             Return finished ws' \<Rightarrow>
                               (if finished then bind_client ws' else Return () ws')
                           | Raise e ws' \<Rightarrow> Raise e ws'
                           | Diverge \<Rightarrow> Diverge)))))))"

subsection \<open>Worker: the registry\<close>

text \<open>
  The module-level dictionary \<open>WORKERS\<close> together with the world.  The lock is
  re-entrant and the model has one thread, so taking it has no effect.
\<close>

record registry =
  WORKERS :: "int \<rightharpoonup> worker"
  env :: world

definition vagrant_is_active :: "world \<Rightarrow> bool" where
  "vagrant_is_active s = (vagrant_environment s \<noteq> None)"

text \<open>The try block under the lock: construct the worker and store it, or log.\<close>

definition Worker_construct :: "nat \<Rightarrow> registry \<Rightarrow> (unit, registry) outcome" where
  "Worker_construct fuel g =
     (let window = window_id (env g) in
      if vagrant_is_active (env g) then
        (case RemoteWorker_init fuel (env g) of
           Return w s' \<Rightarrow> Return () \<lparr>WORKERS = (WORKERS g)(window \<mapsto> w), env = s'\<rparr>
         | Raise e s' \<Rightarrow>
             Return () (g\<lparr>env := log_entry_add LogTraceback (log_entry_add (LogError e) s')\<rparr>)
         | Diverge \<Rightarrow> Diverge)
      else Return () (g\<lparr>WORKERS := (WORKERS g)(window \<mapsto> BaseWorker_init Local)\<rparr>))"

text \<open>\<open>worker.start()\<close> on the object stored under the window: dispatch on its class.\<close>

definition worker_start :: "nat \<Rightarrow> wstate \<Rightarrow> (unit, wstate) outcome" where
  "worker_start fuel ws =
     (case kind (fst ws) of
        Local \<Rightarrow> LocalWorker_start fuel ws
      | Remote \<Rightarrow> RemoteWorker_start fuel ws)"

definition stored_start :: "nat \<Rightarrow> int \<Rightarrow> worker \<Rightarrow> registry \<Rightarrow> (unit, registry) outcome" where
  "stored_start fuel window w g =
     (case worker_start fuel (w, env g) of
        Return u (w', s') \<Rightarrow> Return () \<lparr>WORKERS = (WORKERS g)(window \<mapsto> w'), env = s'\<rparr>
      | Raise e (w', s') \<Rightarrow> Raise e \<lparr>WORKERS = (WORKERS g)(window \<mapsto> w'), env = s'\<rparr>
      | Diverge \<Rightarrow> Diverge)"

text \<open>
  \<open>Worker.execute\<close>.  After the locked block, \<open>WORKERS[window_id]\<close> raises KeyError when
  no worker is stored under the window.
\<close>

definition Worker_execute :: "nat \<Rightarrow> callback \<Rightarrow> kwargs \<Rightarrow> registry \<Rightarrow> (unit, registry) outcome" where
  "Worker_execute fuel cb data g =
     (let window = window_id (env g) in
      case (if WORKERS g window = None then Worker_construct fuel g else Return () g) of
        Diverge \<Rightarrow> Diverge
      | Raise e g1 \<Rightarrow> Raise e g1
      | Return u g1 \<Rightarrow>
         (case WORKERS g1 window of
            None \<Rightarrow> Raise KeyError g1
          | Some worker \<Rightarrow>
             (case client worker of
                Some c \<Rightarrow>
                  (if \<not> client_connected (env g1) (cid c)
                   then stored_start fuel window (worker\<lparr>reconnecting := True\<rparr>) g1
                   else Return () (g1\<lparr>env := send_command c cb data (env g1)\<rparr>))
              | None \<Rightarrow> stored_start fuel window worker g1)))"

subsection \<open>Predicates on outcomes and example environments\<close>

text \<open>\<open>after P r\<close>: the state in which the call ended, by return or by raise, satisfies \<open>P\<close>.\<close>

definition after :: "('s \<Rightarrow> bool) \<Rightarrow> ('a, 's) outcome \<Rightarrow> bool" where
  "after P r = (case r of Return u st \<Rightarrow> P st | Raise e st \<Rightarrow> P st | Diverge \<Rightarrow> True)"

text \<open>
  \<open>frame ws ws'\<close>: the identity of the worker (class, host, port, reconnecting flag) and
  the port allocations are those of \<open>ws\<close>.
\<close>

definition frame :: "wstate \<Rightarrow> wstate \<Rightarrow> bool" where
  "frame ws ws' =
     (kind (fst ws') = kind (fst ws) \<and> hostname (fst ws') = hostname (fst ws)
      \<and> available_port (fst ws') = available_port (fst ws)
      \<and> reconnecting (fst ws') = reconnecting (fst ws)
      \<and> config (fst ws') = config (fst ws)
      \<and> allocs (snd ws') = allocs (snd ws) \<and> ephemeral (snd ws') = ephemeral (snd ws))"

text \<open>The number of commands sent through RPC clients when a call on the registry returned.\<close>

definition commands_sent :: "(unit, registry) outcome \<Rightarrow> nat option" where
  "commands_sent r =
     (case r of Return u g \<Rightarrow> Some (length (sent (env g))) | Raise e g \<Rightarrow> None | Diverge \<Rightarrow> None)"

text \<open>
  A world in which nothing listens, nothing was done yet, no vagrant environment is
  configured, and the system hands out port 54321.  Its recursion limit is small, so
  that the example runs are short; the properties below hold for every limit.
\<close>

definition quiet_world :: world where
  "quiet_world =
     \<lparr> net = (\<lambda>n. Refused), exchange = (\<lambda>n. ExchangeRaises), poll = (\<lambda>h. None),
       ephemeral = (\<lambda>n. 54321), spawn_fails = (\<lambda>args. False),
       client_connected = (\<lambda>c. True), vagrant_environment = None, extra_paths = None,
       python_interpreter = None, folders = [], project = ''proj'', pid = 4242,
       window_id = 1, module_dir = ''anaconda_lib'', sep = ''/'',
       path_join = (\<lambda>a b. a @ ''/'' @ b), expanduser = (\<lambda>p. p),
       path_exists = (\<lambda>p. True), vagrant = VagrantSilent, recursion_limit = 2,
       connections = [], allocs = 0,
       spawned = [], killed = [], clients = 0, closed_clients = [], sent = [],
       messages = [], logged = [] \<rparr>"

text \<open>
  The first scenario: the probe of \<open>start_json_server\<close> and three polls of the loop are
  refused, the next connect succeeds.
\<close>

definition first_call_registry :: registry where
  "first_call_registry =
     \<lparr> WORKERS = Map.empty,
       env = quiet_world\<lparr>net := (\<lambda>n. if n < 4 then Refused else Connected)\<rparr> \<rparr>"

text \<open>The remote configuration of the second scenario, and variants with keys missing.\<close>

definition remote_config :: vagrant_config where
  "remote_config =
     \<lparr> directory = Some ''/work/proj'',
       network = Some \<lparr>address = Some ''10.0.0.5'', nport = Some 19360, mode = Some ''nat''\<rparr>,
       machine = Some ''default'' \<rparr>"

definition no_port_config :: vagrant_config where
  "no_port_config =
     \<lparr> directory = Some ''/work/proj'',
       network = Some \<lparr>address = Some ''10.0.0.5'', nport = None, mode = Some ''nat''\<rparr>,
       machine = Some ''default'' \<rparr>"

definition no_network_config :: vagrant_config where
  "no_network_config =
     \<lparr> directory = Some ''/work/proj'', network = None, machine = Some ''default'' \<rparr>"

text \<open>
  A world with a vagrant environment whose status check calls back with the given
  result before test number \<open>due\<close> of the waiting loop.
\<close>

definition remote_world :: "vagrant_config \<Rightarrow> nat \<Rightarrow> bool \<times> string \<times> string \<Rightarrow> world" where
  "remote_world c due result =
     quiet_world\<lparr>vagrant_environment := Some c, vagrant := VagrantReports due result\<rparr>"

text \<open>
  A local worker that was started before: it owns port 54321, process 0 and client 0.
  In \<open>started_world\<close> that process and client exist and nothing listens; in
  \<open>serving_world\<close> the endpoint accepts connections and answers the health exchange
  with \<open>Ok\<close>; in \<open>wedged_world\<close> it accepts connections and the exchange fails.
\<close>

definition started_worker :: worker where
  "started_worker =
     (BaseWorker_init Local)
       \<lparr>available_port := Some 54321, process := Some 0,
        client := Some \<lparr>cid = 0, chost = ''localhost'', cport = 54321\<rparr>\<rparr>"

definition started_world :: world where
  "started_world = quiet_world\<lparr>allocs := 1, spawned := [[''python'']], clients := 1\<rparr>"

definition serving_world :: world where
  "serving_world =
     started_world\<lparr>net := (\<lambda>n. Connected), exchange := (\<lambda>n. Decoded (PBytes ''Ok''))\<rparr>"

definition wedged_world :: world where
  "wedged_world = started_world\<lparr>net := (\<lambda>n. Connected)\<rparr>"

text \<open>
  A world for a restart: the process and client of \<open>started_worker\<close> exist, the
  endpoint refuses the first connection and accepts the following ones, and the system
  hands out the ports 54321, 54322, ... in turn.
\<close>

definition restart_world :: world where
  "restart_world =
     started_world\<lparr>net := (\<lambda>n. if n < 1 then Refused else Connected),
                   ephemeral := (\<lambda>n. 54321 + int n)\<rparr>"

text \<open>
  The same world with the client of \<open>started_worker\<close> reporting that it is
  disconnected, and registries that hold a worker for window 1.
\<close>

definition dropped_world :: world where
  "dropped_world = restart_world\<lparr>client_connected := (\<lambda>c. False)\<rparr>"

definition dropped_registry :: registry where
  "dropped_registry = \<lparr> WORKERS = [1 \<mapsto> started_worker], env = dropped_world \<rparr>"

definition reconnecting_registry :: registry where
  "reconnecting_registry =
     \<lparr> WORKERS = [1 \<mapsto> started_worker\<lparr>reconnecting := True\<rparr>], env = restart_world \<rparr>"

section \<open>Properties\<close>

subsection \<open>The remote status check\<close>

lemma check_status_wait_unchecked: "check_status_wait n t False ws = Diverge"
  by (induction n arbitrary: t ws) (simp_all add: Let_def)

text \<open>
  Claim C3 says that the polling loop of \<open>check_status\<close> ends once the completion
  callback of the status check has run.  In the code it does not: \<open>check_status\<close> never
  returns, whatever the worker, the world and the number of iterations allowed; and for
  the remote configuration of the scenario, whenever the callback runs and whatever
  result it reports, it is still waiting after any number of iterations.
\<close>

theorem check_status_blocks_forever:
  "check_status fuel ws \<noteq> Return u ws'
   \<and> check_status fuel
        ((BaseWorker_init Remote)\<lparr>config := Some remote_config\<rparr>,
         remote_world remote_config due result) = Diverge"
  by (cases ws)
     (simp add: check_status_def check_status_wait_unchecked Let_def remote_world_def
        remote_config_def quiet_world_def split: option.splits vagrant_run.splits)

text \<open>
  Claim C2 says that a status check reporting failure leaves the constructed worker
  marked unsupported.  On the scenario's configuration, with the result
  (False, empty output, "vagrant not running") reported at any moment: the callback
  does mark the worker unsupported and sets its own variable \<open>checked\<close>, but the
  constructor never returns, so no worker is ever constructed.
\<close>

theorem remote_status_failure_never_constructs:
  "status (False, [], ''vagrant not running'') (w, s)
     = ((w\<lparr>support := Some False\<rparr>, log_entry_add (LogVagrant ''vagrant not running'') s), True)
   \<and> RemoteWorker_init fuel
        (remote_world remote_config due (False, [], ''vagrant not running'')) = Diverge"
  by (simp add: status_def RemoteWorker_init_def check_config_def RemoteWorker_port_def
      check_status_def check_status_wait_unchecked BaseWorker_init_def remote_world_def
      remote_config_def quiet_world_def Let_def)

text \<open>
  Claim C5 says that a worker constructed from a descriptor without \<open>network.port\<close> is
  unsupported once construction has completed.  On such a descriptor \<open>check_config\<close>
  returns False and marks the worker unsupported, and then the constructor never
  returns, whenever the status callback runs and whatever it reports.
\<close>

theorem missing_port_never_constructs:
  "check_config
     ((BaseWorker_init Remote)\<lparr>config := Some no_port_config\<rparr>,
      remote_world no_port_config due result)
     = Return False
         ((BaseWorker_init Remote)\<lparr>config := Some no_port_config, support := Some False\<rparr>,
          error_message ConfigInvalid (remote_world no_port_config due result))
   \<and> RemoteWorker_init fuel (remote_world no_port_config due result) = Diverge"
  by (simp add: RemoteWorker_init_def check_config_def RemoteWorker_port_def check_status_def
      check_status_wait_unchecked BaseWorker_init_def remote_world_def no_port_config_def
      quiet_world_def Let_def error_message_def)

subsection \<open>Health probe and start of the server\<close>

text \<open>
  Claim C7: for a worker with a process handle and an endpoint, when \<open>poll\<close> reports the
  process running, \<open>server_is_healthy\<close> returns true exactly when the exchange yields
  the decoded bytes \<open>Ok\<close> (any other data and any exception give false); when \<open>poll\<close>
  reports that the process has exited, it returns false, logs that the port is in use
  and opens no connection.
\<close>

theorem server_is_healthy_exact:
  assumes "process w = Some h" and "hostname w = Some hn" and "available_port w = Some p"
  shows "server_is_healthy (w, s) =
     (if poll s h = None
      then Return (exchange s (length (connections s)) = Decoded (PBytes ''Ok''))
             (w, s\<lparr>connections := connections s @ [(hn, p)]\<rparr>)
      else Return False (w, s\<lparr>logged := logged s @ [LogPortInUse (Some p)]\<rparr>))"
  using assms
  by (auto simp add: server_is_healthy_def Let_def log_entry_add_def split: option.splits reply.splits)

theorem server_is_healthy_exact_witness:
  "process started_worker = Some 0 \<and> hostname started_worker = Some ''localhost''
   \<and> available_port started_worker = Some 54321
   \<and> server_is_healthy (started_worker, serving_world)
       = Return True (started_worker, serving_world\<lparr>connections := [(''localhost'', 54321)]\<rparr>)
   \<and> server_is_healthy (started_worker, wedged_world)
       = Return False (started_worker, wedged_world\<lparr>connections := [(''localhost'', 54321)]\<rparr>)
   \<and> server_is_healthy (started_worker, serving_world\<lparr>poll := (\<lambda>h. Some 1)\<rparr>)
       = Return False (started_worker,
           serving_world\<lparr>poll := (\<lambda>h. Some 1), logged := [LogPortInUse (Some 54321)]\<rparr>)"
proof -
  have a: "process started_worker = Some 0" and b: "hostname started_worker = Some ''localhost''"
    and c: "available_port started_worker = Some 54321"
    by (simp_all add: started_worker_def BaseWorker_init_def)
  show ?thesis
    using a b c
      server_is_healthy_exact [OF a b c, of serving_world]
      server_is_healthy_exact [OF a b c, of wedged_world]
      server_is_healthy_exact [OF a b c, of "serving_world\<lparr>poll := (\<lambda>h. Some 1)\<rparr>"]
    by (simp add: serving_world_def wedged_world_def started_world_def quiet_world_def)
qed

lemma active_serving: "server_is_active (started_worker, serving_world)
   = Return True (started_worker, serving_world\<lparr>connections := [(''localhost'', 54321)]\<rparr>)"
  by (simp add: server_is_active_def started_worker_def BaseWorker_init_def serving_world_def
      started_world_def quiet_world_def Let_def)

lemma healthy_serving: "server_is_healthy (started_worker, serving_world\<lparr>connections := [(''localhost'', 54321)]\<rparr>)
   = Return True (started_worker,
       serving_world\<lparr>connections := [(''localhost'', 54321), (''localhost'', 54321)]\<rparr>)"
  by (simp add: server_is_healthy_def started_worker_def BaseWorker_init_def serving_world_def
      started_world_def quiet_world_def Let_def)

lemma active_wedged: "server_is_active (started_worker, wedged_world)
   = Return True (started_worker, wedged_world\<lparr>connections := [(''localhost'', 54321)]\<rparr>)"
  by (simp add: server_is_active_def started_worker_def BaseWorker_init_def wedged_world_def
      started_world_def quiet_world_def Let_def)

lemma healthy_wedged: "server_is_healthy (started_worker, wedged_world\<lparr>connections := [(''localhost'', 54321)]\<rparr>)
   = Return False (started_worker,
       wedged_world\<lparr>connections := [(''localhost'', 54321), (''localhost'', 54321)]\<rparr>)"
  by (simp add: server_is_healthy_def started_worker_def BaseWorker_init_def wedged_world_def
      started_world_def quiet_world_def Let_def)

lemma active_started: "server_is_active (started_worker, started_world)
   = Return False (started_worker, started_world\<lparr>connections := [(''localhost'', 54321)]\<rparr>)"
  by (simp add: server_is_active_def started_worker_def BaseWorker_init_def
      started_world_def quiet_world_def Let_def)

text \<open>
  Claim C6: the order of \<open>start_json_server\<close>, for any two methods \<open>san\<close>
  (\<open>sanitize_server\<close>) and \<open>bld\<close> (\<open>build_server\<close>) of the subclass.  Reachable and
  healthy: it returns in the state left by the two checks, whatever \<open>san\<close> and \<open>bld\<close>
  are.  Reachable and not healthy: it is \<open>san\<close> run once in that state, whatever \<open>bld\<close>
  is.  Not reachable: it is \<open>bld\<close> run once after the log entry, whatever \<open>san\<close> is.
\<close>

theorem start_json_server_ordering:
  "(server_is_active ws = Return True ws1 \<and> server_is_healthy ws1 = Return True ws2
      \<longrightarrow> start_json_server san bld ws = Return () ws2)
   \<and> (server_is_active ws = Return True ws1 \<and> server_is_healthy ws1 = Return False ws2
      \<longrightarrow> start_json_server san bld ws = san ws2)
   \<and> (server_is_active ws = Return False ws1
      \<longrightarrow> start_json_server san bld ws = bld (fst ws1, log_entry_add LogStarting (snd ws1)))"
  by (simp add: start_json_server_def split: prod.splits)

theorem start_json_server_ordering_witness:
  "server_is_active (started_worker, serving_world)
     = Return True (started_worker, serving_world\<lparr>connections := [(''localhost'', 54321)]\<rparr>)
   \<and> server_is_healthy (started_worker, serving_world\<lparr>connections := [(''localhost'', 54321)]\<rparr>)
     = Return True (started_worker,
         serving_world\<lparr>connections := [(''localhost'', 54321), (''localhost'', 54321)]\<rparr>)
   \<and> start_json_server (LocalWorker_sanitize_server 1) LocalWorker_build_server
         (started_worker, serving_world)
     = Return () (started_worker,
         serving_world\<lparr>connections := [(''localhost'', 54321), (''localhost'', 54321)]\<rparr>)
   \<and> server_is_active (started_worker, wedged_world)
     = Return True (started_worker, wedged_world\<lparr>connections := [(''localhost'', 54321)]\<rparr>)
   \<and> server_is_healthy (started_worker, wedged_world\<lparr>connections := [(''localhost'', 54321)]\<rparr>)
     = Return False (started_worker,
         wedged_world\<lparr>connections := [(''localhost'', 54321), (''localhost'', 54321)]\<rparr>)
   \<and> start_json_server (LocalWorker_sanitize_server 1) LocalWorker_build_server
         (started_worker, wedged_world)
     = LocalWorker_sanitize_server 1 (started_worker,
         wedged_world\<lparr>connections := [(''localhost'', 54321), (''localhost'', 54321)]\<rparr>)
   \<and> server_is_active (started_worker, started_world)
     = Return False (started_worker, started_world\<lparr>connections := [(''localhost'', 54321)]\<rparr>)
   \<and> start_json_server (LocalWorker_sanitize_server 1) LocalWorker_build_server
         (started_worker, started_world)
     = LocalWorker_build_server (started_worker,
         log_entry_add LogStarting (started_world\<lparr>connections := [(''localhost'', 54321)]\<rparr>))"
  using
    start_json_server_ordering [of "(started_worker, serving_world)" _ _
      "LocalWorker_sanitize_server 1" LocalWorker_build_server]
    start_json_server_ordering [of "(started_worker, wedged_world)" _ _
      "LocalWorker_sanitize_server 1" LocalWorker_build_server]
    start_json_server_ordering [of "(started_worker, started_world)" _ _
      "LocalWorker_sanitize_server 1" LocalWorker_build_server]
    active_serving healthy_serving active_wedged healthy_wedged active_started
  by simp

subsection \<open>What a start leaves unchanged\<close>

text \<open>
  Probing, building, sanitizing, waiting and binding a client leave the class, host,
  port, reconnecting flag and configuration of the worker and the port allocations of
  the world as they were, whether they return or raise.
\<close>

lemma after_simps [simp]:
  "after P (Return u st) = P st" "after P (Raise e st) = P st" "after P Diverge"
  by (simp_all add: after_def)

lemma frame_refl [simp]: "frame ws ws"
  by (simp add: frame_def)

lemma after_frame_weaken:
  assumes "frame a b" and "after (frame b) r"
  shows "after (frame a) r"
  using assms by (cases r) (simp_all add: frame_def)

lemma after_frame_seq:
  assumes r: "after (frame ws) r"
    and g: "\<And>u ws1. after (frame ws1) (g u ws1)"
  shows "after (frame ws)
           (case r of Return u ws1 \<Rightarrow> g u ws1 | Raise e ws1 \<Rightarrow> Raise e ws1 | Diverge \<Rightarrow> Diverge)"
proof (cases r)
  case (Return u ws1)
  with r have f: "frame ws ws1" by simp
  have "after (frame ws) (g u ws1)"
    by (rule after_frame_weaken [OF f g])
  with Return show ?thesis by simp
next
  case (Raise e ws1)
  with r show ?thesis by simp
next
  case Diverge
  then show ?thesis by simp
qed

lemma server_is_active_frame: "after (frame ws) (server_is_active ws)"
  by (cases ws)
     (simp add: server_is_active_def frame_def Let_def log_entry_add_def
        split: option.splits conn_result.splits)

lemma server_is_healthy_frame: "after (frame ws) (server_is_healthy ws)"
  by (cases ws)
     (simp add: server_is_healthy_def frame_def Let_def log_entry_add_def
        split: option.splits reply.splits)

lemma bind_client_frame: "after (frame ws) (bind_client ws)"
  by (cases ws)
     (simp add: bind_client_def AsynClient_def frame_def split: option.splits)

lemma build_server_paths_world:
  "build_server_paths s = Return ps s1 \<or> build_server_paths s = Raise e s1
   \<Longrightarrow> allocs s1 = allocs s \<and> ephemeral s1 = ephemeral s"
  by (auto simp add: build_server_paths_def error_message_def split: option.splits setting.splits)

lemma create_subprocess_world:
  "create_subprocess args s = Return h s1 \<or> create_subprocess args s = Raise e s1
   \<Longrightarrow> allocs s1 = allocs s \<and> ephemeral s1 = ephemeral s"
  by (auto simp add: create_subprocess_def split: if_splits)

lemma build_server_frame: "after (frame ws) (LocalWorker_build_server ws)"
proof -
  obtain w s where ws: "ws = (w, s)" by (cases ws)
  show ?thesis
  proof (cases "build_server_paths s")
    case (Return ps s1)
    then have s1: "allocs s1 = allocs s \<and> ephemeral s1 = ephemeral s"
      using build_server_paths_world by blast
    show ?thesis
    proof (cases "create_subprocess
             ([build_server_python s1, ''-B'',
               path_join s (module_dir s) (''../anaconda_server'' @ sep s @ ''jsonserver.py''),
               ''-p'', project s1, str_port (available_port w)]
              @ (if ps \<noteq> [] then [''-e'', join_comma ps] else []) @ [digits (pid s1)]) s1")
      case (Return h s2)
      then have "allocs s2 = allocs s1 \<and> ephemeral s2 = ephemeral s1"
        using create_subprocess_world by blast
      with s1 Return \<open>build_server_paths s = Return ps s1\<close> show ?thesis
        by (simp add: ws LocalWorker_build_server_def Let_def frame_def)
    next
      case (Raise e s2)
      then have "allocs s2 = allocs s1 \<and> ephemeral s2 = ephemeral s1"
        using create_subprocess_world by blast
      with s1 Raise \<open>build_server_paths s = Return ps s1\<close> show ?thesis
        by (simp add: ws LocalWorker_build_server_def Let_def frame_def)
    next
      case Diverge
      with \<open>build_server_paths s = Return ps s1\<close> show ?thesis
        by (simp add: ws LocalWorker_build_server_def Let_def)
    qed
  next
    case (Raise e s1)
    then have "allocs s1 = allocs s \<and> ephemeral s1 = ephemeral s"
      using build_server_paths_world by blast
    with Raise show ?thesis
      by (simp add: ws LocalWorker_build_server_def Let_def frame_def)
  next
    case Diverge
    then show ?thesis by (simp add: ws LocalWorker_build_server_def Let_def)
  qed
qed

lemma start_json_server_frame:
  assumes san: "\<And>ws'. after (frame ws') (san ws')"
      and bld: "\<And>ws'. after (frame ws') (bld ws')"
  shows "after (frame ws) (start_json_server san bld ws)"
proof -
  have log: "after (frame ws1) (case ws1 of (w1, s1) \<Rightarrow> bld (w1, log_entry_add LogStarting s1))"
    for ws1
  proof -
    obtain w1 s1 where ws1: "ws1 = (w1, s1)" by (cases ws1)
    have "frame (w1, s1) (w1, log_entry_add LogStarting s1)"
      by (simp add: frame_def log_entry_add_def)
    then have "after (frame (w1, s1)) (bld (w1, log_entry_add LogStarting s1))"
      by (rule after_frame_weaken) (rule bld)
    then show ?thesis by (simp add: ws1)
  qed
  have healthy: "after (frame ws1)
        (case server_is_healthy ws1 of
           Return healthy ws2 \<Rightarrow> if healthy then Return () ws2 else san ws2
         | Raise e ws2 \<Rightarrow> Raise e ws2 | Diverge \<Rightarrow> Diverge)" for ws1
    by (rule after_frame_seq [OF server_is_healthy_frame]) (simp add: san)
  have "after (frame ws)
     (case server_is_active ws of
        Return active ws1 \<Rightarrow>
          (if active then
             (case server_is_healthy ws1 of
                Return healthy ws2 \<Rightarrow> if healthy then Return () ws2 else san ws2
              | Raise e ws2 \<Rightarrow> Raise e ws2 | Diverge \<Rightarrow> Diverge)
           else (case ws1 of (w1, s1) \<Rightarrow> bld (w1, log_entry_add LogStarting s1)))
      | Raise e ws1 \<Rightarrow> Raise e ws1
      | Diverge \<Rightarrow> Diverge)"
    by (rule after_frame_seq [OF server_is_active_frame]) (simp add: healthy log)
  then show ?thesis by (simp add: start_json_server_def)
qed

lemma sanitize_server_frame: "after (frame ws) (LocalWorker_sanitize_server n ws)"
proof (induction n arbitrary: ws)
  case 0
  show ?case by simp
next
  case (Suc n)
  obtain w s where ws: "ws = (w, s)" by (cases ws)
  show ?case
  proof (cases "client w")
    case None
    then show ?thesis by (simp add: ws)
  next
    case c: (Some c)
    show ?thesis
    proof (cases "process w")
      case None
      then show ?thesis using c by (simp add: ws frame_def client_close_def Let_def)
    next
      case (Some h)
      have f: "frame (w, s) (w, process_kill h (client_close c s))"
        by (simp add: frame_def process_kill_def client_close_def)
      have "after (frame (w, s))
              (start_json_server (LocalWorker_sanitize_server n) LocalWorker_build_server
                 (w, process_kill h (client_close c s)))"
        by (rule after_frame_weaken [OF f])
           (rule start_json_server_frame, rule Suc.IH, rule build_server_frame)
      then show ?thesis using Some c by (simp add: ws Let_def)
    qed
  qed
qed

lemma wait_active_frame: "after (frame ws) (wait_active n ws)"
proof (induction n arbitrary: ws)
  case 0
  show ?case by simp
next
  case (Suc n)
  have "after (frame ws)
     (case server_is_active ws of
        Return active ws' \<Rightarrow> (if active then Return () ws' else wait_active n ws')
      | Raise e ws' \<Rightarrow> Raise e ws'
      | Diverge \<Rightarrow> Diverge)"
    by (rule after_frame_seq [OF server_is_active_frame]) (simp add: Suc.IH)
  then show ?case by simp
qed

subsection \<open>Port stability\<close>

lemma assign_port_simps:
  "LocalWorker_assign_port (w, s)
     = (w\<lparr>available_port := Some (ephemeral s (allocs s))\<rparr>, s\<lparr>allocs := Suc (allocs s)\<rparr>)"
  by (simp add: LocalWorker_assign_port_def LocalWorker_port_def)

lemma start_try_frame:
  "after (frame (if reconnecting (fst ws) then LocalWorker_assign_port ws else ws))
     (LocalWorker_start_try fuel ws)"
proof -
  have wait: "after (frame ws2)
        (case wait_active fuel ws2 of
           Return u' ws3 \<Rightarrow> bind_client ws3
         | Raise e ws3 \<Rightarrow> Raise e ws3 | Diverge \<Rightarrow> Diverge)" for ws2
    by (rule after_frame_seq [OF wait_active_frame]) (rule bind_client_frame)
  have sjs: "after (frame ws1) (LocalWorker_start_json_server ws1)" for ws1
    unfolding LocalWorker_start_json_server_def
    by (rule start_json_server_frame) (rule sanitize_server_frame, rule build_server_frame)
  have "after (frame ws1)
     (case LocalWorker_start_json_server ws1 of
        Return u ws2 \<Rightarrow>
          (case wait_active fuel ws2 of
             Return u' ws3 \<Rightarrow> bind_client ws3
           | Raise e ws3 \<Rightarrow> Raise e ws3 | Diverge \<Rightarrow> Diverge)
      | Raise e ws2 \<Rightarrow> Raise e ws2
      | Diverge \<Rightarrow> Diverge)" for ws1
    by (rule after_frame_seq [OF sjs]) (rule wait)
  then show ?thesis by (simp add: LocalWorker_start_try_def Let_def)
qed

lemma LocalWorker_start_never_raises: "LocalWorker_start fuel ws \<noteq> Raise e ws'"
  by (simp add: LocalWorker_start_def Let_def split: outcome.splits prod.splits)

lemma LocalWorker_start_frame:
  "after
     (frame
        (let ws1 = (if available_port (fst ws) = None \<or> available_port (fst ws) = Some 0
                    then LocalWorker_assign_port ws else ws)
         in if reconnecting (fst ws1) then LocalWorker_assign_port ws1 else ws1))
     (LocalWorker_start fuel ws)"
proof -
  define ws1 where
    "ws1 = (if available_port (fst ws) = None \<or> available_port (fst ws) = Some 0
            then LocalWorker_assign_port ws else ws)"
  define ws2 where "ws2 = (if reconnecting (fst ws1) then LocalWorker_assign_port ws1 else ws1)"
  have t: "after (frame ws2) (LocalWorker_start_try fuel ws1)"
    unfolding ws2_def by (rule start_try_frame)
  have "after (frame ws2)
     (case LocalWorker_start_try fuel ws1 of
        Return u ws3 \<Rightarrow> Return () ws3
      | Raise e ws3 \<Rightarrow>
          (case ws3 of (w3, s3) \<Rightarrow>
             Return () (w3, log_entry_add LogTraceback (log_entry_add (LogError e) s3)))
      | Diverge \<Rightarrow> Diverge)"
    using t
    by (cases "LocalWorker_start_try fuel ws1")
       (auto simp add: frame_def log_entry_add_def)
  then show ?thesis
    unfolding LocalWorker_start_def Let_def ws1_def ws2_def .
qed

text \<open>
  Claim C8: across a call of \<open>LocalWorker.start\<close> that returns (a call whose try block
  raised, RecursionError included, returns too), a port already assigned
  (not \<open>None\<close> and not 0, the values \<open>start\<close> itself takes for "no port") is
  unchanged and no port is allocated when \<open>reconnecting\<close> is false; when
  \<open>reconnecting\<close> is true, at least one port is allocated during the call and the
  worker's port is the last one allocated.
\<close>

theorem port_stability:
  assumes "LocalWorker_start fuel (w, s) = Return () (w', s')"
  shows "(reconnecting w = False \<and> available_port w = Some p \<and> p \<noteq> 0
            \<longrightarrow> available_port w' = Some p \<and> allocs s' = allocs s)
       \<and> (reconnecting w = True
            \<longrightarrow> allocs s < allocs s' \<and> available_port w' = Some (ephemeral s (allocs s' - 1)))"
  using LocalWorker_start_frame [of "(w, s)" fuel] assms
  by (auto simp add: frame_def assign_port_simps Let_def)

lemmas run_defs =
  LocalWorker_start_def LocalWorker_start_try_def LocalWorker_start_json_server_def
  start_json_server_def server_is_active_def server_is_healthy_def
  LocalWorker_build_server_def build_server_paths_def build_server_python_def
  create_subprocess_def bind_client_def AsynClient_def LocalWorker_assign_port_def
  LocalWorker_port_def client_close_def process_kill_def send_command_def
  log_entry_add_def error_message_def str_port_def str_int_def Let_def

lemmas fixture_defs =
  started_worker_def BaseWorker_init_def restart_world_def started_world_def
  serving_world_def wedged_world_def quiet_world_def dropped_world_def
  dropped_registry_def reconnecting_registry_def

lemma restart_run:
  "LocalWorker_start 1 (started_worker, restart_world)
     = Return ()
        (started_worker
           \<lparr>process := Some 1,
            client := Some \<lparr>cid = 1, chost = ''localhost'', cport = 54321\<rparr>\<rparr>,
         restart_world
           \<lparr>connections := [(''localhost'', 54321), (''localhost'', 54321)],
            spawned := [[''python''],
                        [''python'', ''-B'', ''anaconda_lib/../anaconda_server/jsonserver.py'',
                         ''-p'', ''proj'', ''54321'', ''4242'']],
            clients := 2, logged := [LogStarting]\<rparr>)"
  by (simp add: run_defs fixture_defs)

lemma reconnect_run:
  "LocalWorker_start 1 (started_worker\<lparr>reconnecting := True\<rparr>, restart_world)
     = Return ()
        (started_worker
           \<lparr>reconnecting := True, available_port := Some 54322, process := Some 1,
            client := Some \<lparr>cid = 1, chost = ''localhost'', cport = 54322\<rparr>\<rparr>,
         restart_world
           \<lparr>connections := [(''localhost'', 54322), (''localhost'', 54322)],
            allocs := 2,
            spawned := [[''python''],
                        [''python'', ''-B'', ''anaconda_lib/../anaconda_server/jsonserver.py'',
                         ''-p'', ''proj'', ''54322'', ''4242'']],
            clients := 2, logged := [LogStarting]\<rparr>)"
  by (simp add: run_defs fixture_defs)

text \<open>
  An endpoint that stays reachable and unhealthy.  Whatever the recursion limit,
  \<open>sanitize_server\<close> ends with RecursionError there, and \<open>start\<close>, whose handler
  catches it, returns.
\<close>

lemma wedged_sanitize_raises:
  assumes w: "client w = Some c" "process w = Some h" "hostname w = Some hn"
      "available_port w = Some p"
    and wedged: "\<And>k. net s k = Connected" "\<And>k. exchange s k = ExchangeRaises"
      "poll s h = None"
  shows "\<exists>s'. LocalWorker_sanitize_server n (w, s) = Raise RecursionError (w, s')"
  using wedged
proof (induction n arbitrary: s)
  case 0
  show ?case by simp
next
  case (Suc n)
  define s4 where
    "s4 = s\<lparr>closed_clients := closed_clients s @ [cid c], killed := killed s @ [h],
             connections := connections s @ [(hn, p), (hn, p)]\<rparr>"
  have step: "LocalWorker_sanitize_server (Suc n) (w, s) = LocalWorker_sanitize_server n (w, s4)"
    by (simp add: w Suc.prems start_json_server_def server_is_active_def
        server_is_healthy_def client_close_def process_kill_def Let_def s4_def)
  have "\<exists>s'. LocalWorker_sanitize_server n (w, s4) = Raise RecursionError (w, s')"
    by (rule Suc.IH) (simp_all add: s4_def Suc.prems)
  then show ?case by (simp only: step)
qed

lemma wedged_start_returns:
  assumes w: "client w = Some c" "process w = Some h" "hostname w = Some hn"
      "available_port w = Some p"
    and wedged: "\<And>k. net s k = Connected" "\<And>k. exchange s k = ExchangeRaises"
      "poll s h = None"
  shows "\<exists>w' s'. LocalWorker_start fuel (w, s) = Return () (w', s')"
proof -
  define ws1 where
    "ws1 = (if available_port w = None \<or> available_port w = Some 0
            then LocalWorker_assign_port (w, s) else (w, s))"
  define ws2 where "ws2 = (if reconnecting (fst ws1) then LocalWorker_assign_port ws1 else ws1)"
  obtain w2 s2 where ws2: "ws2 = (w2, s2)" by (cases ws2)
  have w2: "client w2 = Some c" "process w2 = Some h" "hostname w2 = Some hn"
    "\<exists>q. available_port w2 = Some q"
    and s2: "\<And>k. net s2 k = Connected" "\<And>k. exchange s2 k = ExchangeRaises" "poll s2 h = None"
    using ws2 w wedged
    by (auto simp add: ws2_def ws1_def assign_port_simps split: if_splits)
  obtain q where q: "available_port w2 = Some q" using w2(4) by blast
  define s3 where "s3 = s2\<lparr>connections := connections s2 @ [(hn, q), (hn, q)]\<rparr>"
  have "\<exists>s'. LocalWorker_sanitize_server (recursion_limit s2) (w2, s3)
               = Raise RecursionError (w2, s')"
    by (rule wedged_sanitize_raises [OF w2(1,2,3) q]) (simp_all add: s3_def s2)
  then obtain s' where
    "LocalWorker_sanitize_server (recursion_limit s2) (w2, s3) = Raise RecursionError (w2, s')"
    by blast
  then have "LocalWorker_start_json_server (w2, s2) = Raise RecursionError (w2, s')"
    by (simp add: LocalWorker_start_json_server_def start_json_server_def server_is_active_def
        server_is_healthy_def Let_def w2(2,3) q s2 s3_def)
  then have "LocalWorker_start_try fuel ws1 = Raise RecursionError (w2, s')"
    using ws2 by (simp add: LocalWorker_start_try_def Let_def ws2_def)
  then show ?thesis
    by (simp add: LocalWorker_start_def Let_def ws1_def)
qed

lemma wedged_run:
  "LocalWorker_start 1 (started_worker, wedged_world)
     = Return ()
        (started_worker,
         wedged_world
           \<lparr>connections := [(''localhost'', 54321), (''localhost'', 54321),
                            (''localhost'', 54321), (''localhost'', 54321),
                            (''localhost'', 54321), (''localhost'', 54321)],
            killed := [0, 0], closed_clients := [0, 0],
            logged := [LogError RecursionError, LogTraceback]\<rparr>)"
  by (simp add: run_defs fixture_defs numeral_2_eq_2)

lemma wedged_reconnect_run:
  "LocalWorker_start 1 (started_worker\<lparr>reconnecting := True\<rparr>, wedged_world)
     = Return ()
        (started_worker\<lparr>reconnecting := True\<rparr>,
         wedged_world
           \<lparr>connections := [(''localhost'', 54321), (''localhost'', 54321),
                            (''localhost'', 54321), (''localhost'', 54321),
                            (''localhost'', 54321), (''localhost'', 54321)],
            allocs := 2, killed := [0, 0], closed_clients := [0, 0],
            logged := [LogError RecursionError, LogTraceback]\<rparr>)"
  by (simp add: run_defs fixture_defs numeral_2_eq_2)

theorem port_stability_witness:
  "LocalWorker_start 1 (started_worker, restart_world)
     = Return ()
        (started_worker
           \<lparr>process := Some 1,
            client := Some \<lparr>cid = 1, chost = ''localhost'', cport = 54321\<rparr>\<rparr>,
         restart_world
           \<lparr>connections := [(''localhost'', 54321), (''localhost'', 54321)],
            spawned := [[''python''],
                        [''python'', ''-B'', ''anaconda_lib/../anaconda_server/jsonserver.py'',
                         ''-p'', ''proj'', ''54321'', ''4242'']],
            clients := 2, logged := [LogStarting]\<rparr>)
   \<and> reconnecting started_worker = False \<and> available_port started_worker = Some 54321
   \<and> (54321 :: int) \<noteq> 0
   \<and> available_port
        (started_worker
           \<lparr>process := Some 1,
            client := Some \<lparr>cid = 1, chost = ''localhost'', cport = 54321\<rparr>\<rparr>) = Some 54321
   \<and> LocalWorker_start 1 (started_worker\<lparr>reconnecting := True\<rparr>, restart_world)
     = Return ()
        (started_worker
           \<lparr>reconnecting := True, available_port := Some 54322, process := Some 1,
            client := Some \<lparr>cid = 1, chost = ''localhost'', cport = 54322\<rparr>\<rparr>,
         restart_world
           \<lparr>connections := [(''localhost'', 54322), (''localhost'', 54322)],
            allocs := 2,
            spawned := [[''python''],
                        [''python'', ''-B'', ''anaconda_lib/../anaconda_server/jsonserver.py'',
                         ''-p'', ''proj'', ''54322'', ''4242'']],
            clients := 2, logged := [LogStarting]\<rparr>)
   \<and> reconnecting (started_worker\<lparr>reconnecting := True\<rparr>) = True
   \<and> available_port
        (started_worker
           \<lparr>reconnecting := True, available_port := Some 54322, process := Some 1,
            client := Some \<lparr>cid = 1, chost = ''localhost'', cport = 54322\<rparr>\<rparr>)
       = Some (ephemeral restart_world 1)
   \<and> LocalWorker_start 1 (started_worker, wedged_world)
     = Return ()
        (started_worker,
         wedged_world
           \<lparr>connections := [(''localhost'', 54321), (''localhost'', 54321),
                            (''localhost'', 54321), (''localhost'', 54321),
                            (''localhost'', 54321), (''localhost'', 54321)],
            killed := [0, 0], closed_clients := [0, 0],
            logged := [LogError RecursionError, LogTraceback]\<rparr>)
   \<and> allocs
        (wedged_world
           \<lparr>connections := [(''localhost'', 54321), (''localhost'', 54321),
                            (''localhost'', 54321), (''localhost'', 54321),
                            (''localhost'', 54321), (''localhost'', 54321)],
            killed := [0, 0], closed_clients := [0, 0],
            logged := [LogError RecursionError, LogTraceback]\<rparr>) = allocs wedged_world"
  using port_stability [OF restart_run, of 54321] port_stability [OF reconnect_run, of 0]
    port_stability [OF wedged_run, of 54321]
    restart_run reconnect_run wedged_run
  by (simp add: fixture_defs)

subsection \<open>Respawn\<close>

lemma create_subprocess_Return:
  assumes "create_subprocess args s = Return h s'"
  shows "h = length (spawned s) \<and> length (spawned s') = Suc (length (spawned s))
         \<and> killed s' = killed s"
proof (cases "spawn_fails s args")
  case True
  with assms show ?thesis by (simp add: create_subprocess_def)
next
  case False
  with assms show ?thesis by (auto simp add: create_subprocess_def)
qed

lemma build_server_paths_Return:
  assumes "build_server_paths s = Return ps s1"
  shows "spawned s1 = spawned s \<and> killed s1 = killed s"
proof (cases "case extra_paths s of None \<Rightarrow> SList [] | Some v \<Rightarrow> v")
  case (SList x)
  with assms show ?thesis by (auto simp add: build_server_paths_def)
next
  case (SStr x)
  with assms show ?thesis by (auto simp add: build_server_paths_def error_message_def)
next
  case SOther
  with assms show ?thesis by (simp add: build_server_paths_def)
qed

lemma build_server_Return:
  assumes run: "LocalWorker_build_server (w, s) = Return u (w', s')"
  shows "w' = w\<lparr>process := Some (length (spawned s))\<rparr>
         \<and> length (spawned s') = Suc (length (spawned s)) \<and> killed s' = killed s"
proof (cases "build_server_paths s")
  case (Return ps s1)
  then have s1: "spawned s1 = spawned s" "killed s1 = killed s"
    using build_server_paths_Return by blast+
  define args where
    "args = [build_server_python s1, ''-B'',
             path_join s (module_dir s) (''../anaconda_server'' @ sep s @ ''jsonserver.py''),
             ''-p'', project s1, str_port (available_port w)]
            @ (if ps \<noteq> [] then [''-e'', join_comma ps] else []) @ [digits (pid s1)]"
  have eq: "LocalWorker_build_server (w, s)
      = (case create_subprocess args s1 of
           Return h s2 \<Rightarrow> Return () (w\<lparr>process := Some h\<rparr>, s2)
         | Raise e s2 \<Rightarrow> Raise e (w, s2)
         | Diverge \<Rightarrow> Diverge)"
    unfolding args_def by (simp add: LocalWorker_build_server_def Let_def Return)
  show ?thesis
  proof (cases "create_subprocess args s1")
    case sub: (Return h s2)
    from create_subprocess_Return [OF sub]
    have "h = length (spawned s) \<and> length (spawned s2) = Suc (length (spawned s))
          \<and> killed s2 = killed s"
      by (simp add: s1)
    moreover from run eq sub have "w' = w\<lparr>process := Some h\<rparr>" and "s' = s2" by simp_all
    ultimately show ?thesis by simp
  next
    case (Raise e s2)
    with run eq show ?thesis by simp
  next
    case Diverge
    with run eq show ?thesis by simp
  qed
next
  case (Raise e s1)
  with run show ?thesis by (simp add: LocalWorker_build_server_def Let_def)
next
  case Diverge
  with run show ?thesis by (simp add: LocalWorker_build_server_def Let_def)
qed

text \<open>
  Claim C9: whenever \<open>sanitize_server\<close> of a local worker returns and the endpoint no
  longer accepts a connection when it is probed, the worker's hostname and port are
  those before the call, exactly one kill was added and it is on the old process handle,
  and the process field holds the handle of the one process created during the call.
\<close>

theorem sanitize_preserves_identity:
  assumes run: "LocalWorker_sanitize_server fuel (w, s) = Return () (w', s')"
      and gone: "net s (length (connections s)) \<noteq> Connected"
  shows "hostname w' = hostname w \<and> available_port w' = available_port w
         \<and> (\<exists>h. process w = Some h \<and> killed s' = killed s @ [h])
         \<and> process w' = Some (length (spawned s))
         \<and> length (spawned s') = Suc (length (spawned s))"
proof -
  obtain n where fuel: "fuel = Suc n"
    using run by (cases fuel) simp_all
  obtain c where c: "client w = Some c"
    using run by (cases "client w") (simp_all add: fuel)
  obtain h where h: "process w = Some h"
    using run c by (cases "process w") (simp_all add: fuel Let_def)
  define s2 where "s2 = process_kill h (client_close c s)"
  have s2: "connections s2 = connections s" "net s2 = net s" "spawned s2 = spawned s"
    "killed s2 = killed s @ [h]"
    by (simp_all add: s2_def process_kill_def client_close_def)
  have sjs: "start_json_server (LocalWorker_sanitize_server n) LocalWorker_build_server (w, s2)
               = Return () (w', s')"
    using run by (simp add: fuel c h Let_def s2_def)
  obtain hn p where ep: "hostname w = Some hn" "available_port w = Some p"
    using sjs
    by (cases "hostname w"; cases "available_port w")
       (simp_all add: start_json_server_def server_is_active_def)
  define s3 where "s3 = s2\<lparr>connections := connections s2 @ [(hn, p)]\<rparr>"
  have "\<exists>s4. server_is_active (w, s2) = Return False (w, s4)
            \<and> spawned s4 = spawned s \<and> killed s4 = killed s @ [h]"
    using gone
    by (cases "net s (length (connections s))")
       (simp_all add: server_is_active_def ep s2 Let_def log_entry_add_def)
  then obtain s4 where act: "server_is_active (w, s2) = Return False (w, s4)"
    and s4: "spawned s4 = spawned s" "killed s4 = killed s @ [h]"
    by blast
  have "LocalWorker_build_server (w, log_entry_add LogStarting s4) = Return () (w', s')"
    using sjs by (simp add: start_json_server_def act)
  from build_server_Return [OF this]
  have "w' = w\<lparr>process := Some (length (spawned s))\<rparr>
        \<and> length (spawned s') = Suc (length (spawned s)) \<and> killed s' = killed s @ [h]"
    by (simp add: log_entry_add_def s4)
  then show ?thesis using h by simp
qed

lemma sanitize_run:
  "LocalWorker_sanitize_server 1 (started_worker, started_world)
     = Return ()
        (started_worker\<lparr>process := Some 1\<rparr>,
         started_world
           \<lparr>connections := [(''localhost'', 54321)],
            spawned := [[''python''],
                        [''python'', ''-B'', ''anaconda_lib/../anaconda_server/jsonserver.py'',
                         ''-p'', ''proj'', ''54321'', ''4242'']],
            killed := [0], closed_clients := [0], logged := [LogStarting]\<rparr>)"
  by (simp add: run_defs fixture_defs)

theorem sanitize_preserves_identity_witness:
  "LocalWorker_sanitize_server 1 (started_worker, started_world)
     = Return ()
        (started_worker\<lparr>process := Some 1\<rparr>,
         started_world
           \<lparr>connections := [(''localhost'', 54321)],
            spawned := [[''python''],
                        [''python'', ''-B'', ''anaconda_lib/../anaconda_server/jsonserver.py'',
                         ''-p'', ''proj'', ''54321'', ''4242'']],
            killed := [0], closed_clients := [0], logged := [LogStarting]\<rparr>)
   \<and> net started_world (length (connections started_world)) \<noteq> Connected
   \<and> hostname (started_worker\<lparr>process := Some 1\<rparr>) = hostname started_worker
   \<and> available_port (started_worker\<lparr>process := Some 1\<rparr>) = available_port started_worker
   \<and> process started_worker = Some 0
   \<and> process (started_worker\<lparr>process := Some 1\<rparr>) = Some (length (spawned started_world))"
proof -
  have gone: "net started_world (length (connections started_world)) \<noteq> Connected"
    by (simp add: fixture_defs)
  show ?thesis
    using sanitize_preserves_identity [OF sanitize_run gone] sanitize_run gone
    by (simp add: fixture_defs)
qed

subsection \<open>The reconnecting flag\<close>

lemma after_mono:
  assumes "after P r" and "\<And>st. P st \<Longrightarrow> Q st"
  shows "after Q r"
  using assms by (cases r) simp_all

lemma RemoteWorker_wait_frame: "after (frame ws) (RemoteWorker_wait n ws)"
proof (induction n arbitrary: ws)
  case 0
  show ?case by simp
next
  case (Suc n)
  have "after (frame ws)
     (case server_is_active ws of
        Return active ws' \<Rightarrow>
          (if active then Return True ws'
           else if support (fst ws') \<noteq> Some True then Return False ws'
           else RemoteWorker_wait n ws')
      | Raise e ws' \<Rightarrow> Raise e ws'
      | Diverge \<Rightarrow> Diverge)"
    by (rule after_frame_seq [OF server_is_active_frame]) (simp add: Suc.IH)
  then show ?case by simp
qed

lemma RemoteWorker_start_flag:
  "after (\<lambda>ws'. reconnecting (fst ws') = reconnecting (fst ws)) (RemoteWorker_start fuel ws)"
proof -
  obtain w s where ws: "ws = (w, s)" by (cases ws)
  have loop: "after (frame (w, s))
     (case RemoteWorker_wait fuel (w, s) of
        Return finished ws' \<Rightarrow> (if finished then bind_client ws' else Return () ws')
      | Raise e ws' \<Rightarrow> Raise e ws'
      | Diverge \<Rightarrow> Diverge)"
    by (rule after_frame_seq [OF RemoteWorker_wait_frame]) (simp add: bind_client_frame)
  have loop': "after (\<lambda>ws'. reconnecting (fst ws') = reconnecting w)
     (case RemoteWorker_wait fuel (w, s) of
        Return finished ws' \<Rightarrow> (if finished then bind_client ws' else Return () ws')
      | Raise e ws' \<Rightarrow> Raise e ws'
      | Diverge \<Rightarrow> Diverge)"
    by (rule after_mono [OF loop]) (simp add: frame_def)
  show ?thesis
    using loop'
    by (simp add: ws RemoteWorker_start_def split: option.splits)
qed

lemma LocalWorker_start_flag:
  "after (\<lambda>ws'. reconnecting (fst ws') = reconnecting (fst ws)) (LocalWorker_start fuel ws)"
proof -
  obtain w s where ws: "ws = (w, s)" by (cases ws)
  show ?thesis
    by (rule after_mono [OF LocalWorker_start_frame [of ws fuel]])
       (auto simp add: ws frame_def assign_port_simps Let_def split: if_splits)
qed

lemma worker_start_flag:
  "after (\<lambda>ws'. reconnecting (fst ws') = reconnecting (fst ws)) (worker_start fuel ws)"
  by (cases "kind (fst ws)")
     (simp_all add: worker_start_def LocalWorker_start_flag RemoteWorker_start_flag)

lemma stored_start_flag:
  "after (\<lambda>g'. \<exists>w'. WORKERS g' window = Some w' \<and> reconnecting w' = reconnecting w)
     (stored_start fuel window w g)"
  using worker_start_flag [of "(w, env g)" fuel]
  by (cases "worker_start fuel (w, env g)") (auto simp add: stored_start_def)

text \<open>
  Claim C10: nothing clears the reconnecting flag.  For a worker whose flag is set, it
  is still set in the state in which \<open>LocalWorker.start\<close>, \<open>sanitize_server\<close>,
  \<open>LocalWorker._execute\<close> and \<open>RemoteWorker.start\<close> end (by return or by raise), and
  in the worker stored under the window when \<open>Worker.execute\<close> ends; every
  \<open>LocalWorker.start\<close> that returns has then allocated a port and left the worker on
  the last port allocated.  And a disconnection seen by \<open>_execute\<close> or by
  \<open>Worker.execute\<close> sets the flag, whatever it was.  The calls that end with the
  RecursionError of an endpoint that stays reachable and unhealthy are among them: they
  raise, or return from the handler of \<open>start\<close>.
\<close>

theorem reconnecting_never_reset:
  assumes flag: "reconnecting w"
  shows "after (\<lambda>ws'. reconnecting (fst ws')) (LocalWorker_start fuel (w, s))
     \<and> after (\<lambda>ws'. reconnecting (fst ws')) (LocalWorker_sanitize_server fuel (w, s))
     \<and> after (\<lambda>ws'. reconnecting (fst ws')) (LocalWorker__execute fuel cb data (w, s))
     \<and> after (\<lambda>ws'. reconnecting (fst ws')) (RemoteWorker_start fuel (w, s))
     \<and> (WORKERS g (window_id (env g)) = Some w \<longrightarrow>
          after (\<lambda>g'. \<exists>w'. WORKERS g' (window_id (env g)) = Some w' \<and> reconnecting w')
            (Worker_execute fuel cb data g))
     \<and> (LocalWorker_start fuel (w, s) = Return () (w', s') \<longrightarrow>
          allocs s < allocs s' \<and> available_port w' = Some (ephemeral s (allocs s' - 1)))
     \<and> (client w0 = Some c \<and> \<not> client_connected s (cid c) \<longrightarrow>
          after (\<lambda>ws'. reconnecting (fst ws')) (LocalWorker__execute fuel cb data (w0, s)))
     \<and> (WORKERS g (window_id (env g)) = Some w0 \<and> client w0 = Some c
          \<and> \<not> client_connected (env g) (cid c) \<longrightarrow>
          after (\<lambda>g'. \<exists>w'. WORKERS g' (window_id (env g)) = Some w' \<and> reconnecting w')
            (Worker_execute fuel cb data g))"
proof -
  have start: "after (\<lambda>ws'. reconnecting (fst ws')) (LocalWorker_start fuel (v, s))"
    if "reconnecting v" for v
    by (rule after_mono [OF LocalWorker_start_flag [of "(v, s)" fuel]]) (simp add: that)
  have sanitize: "after (\<lambda>ws'. reconnecting (fst ws')) (LocalWorker_sanitize_server fuel (w, s))"
    by (rule after_mono [OF sanitize_server_frame [of "(w, s)" fuel]]) (simp add: frame_def flag)
  have remote: "after (\<lambda>ws'. reconnecting (fst ws')) (RemoteWorker_start fuel (w, s))"
    by (rule after_mono [OF RemoteWorker_start_flag [of "(w, s)" fuel]]) (simp add: flag)
  have reconnect: "after (\<lambda>ws'. reconnecting (fst ws'))
      (case LocalWorker_start fuel (v\<lparr>reconnecting := True\<rparr>, s) of
         Return u (w', s') \<Rightarrow>
           (case client w' of
              None \<Rightarrow> Raise AttributeError (w', s')
            | Some c' \<Rightarrow> Return () (w', send_command c' cb data s'))
       | Raise e ws' \<Rightarrow> Raise e ws'
       | Diverge \<Rightarrow> Diverge)" for v
    using start [of "v\<lparr>reconnecting := True\<rparr>"]
    by (cases "LocalWorker_start fuel (v\<lparr>reconnecting := True\<rparr>, s)")
       (auto split: option.splits)
  have exec: "after (\<lambda>ws'. reconnecting (fst ws')) (LocalWorker__execute fuel cb data (v, s))"
    if "reconnecting v \<or> (\<exists>c. client v = Some c \<and> \<not> client_connected s (cid c))" for v
    using that reconnect [of v]
    by (auto simp add: LocalWorker__execute_def split: option.splits)
  have stored: "after (\<lambda>g'. \<exists>w'. WORKERS g' k = Some w' \<and> reconnecting w')
      (stored_start fuel k v g)" if "reconnecting v" for v k
    by (rule after_mono [OF stored_start_flag [of k v fuel g]]) (auto simp add: that)
  have registry: "after (\<lambda>g'. \<exists>w'. WORKERS g' (window_id (env g)) = Some w' \<and> reconnecting w')
      (Worker_execute fuel cb data g)"
    if "WORKERS g (window_id (env g)) = Some v"
      and "reconnecting v \<or> (\<exists>c. client v = Some c \<and> \<not> client_connected (env g) (cid c))"
    for v
  proof (cases "client v")
    case None
    with that stored [of v "window_id (env g)"] show ?thesis
      by (simp add: Worker_execute_def Let_def)
  next
    case (Some c)
    show ?thesis
    proof (cases "client_connected (env g) (cid c)")
      case True
      with that Some show ?thesis by (simp add: Worker_execute_def Let_def)
    next
      case False
      with that Some stored [of "v\<lparr>reconnecting := True\<rparr>" "window_id (env g)"] show ?thesis
        by (simp add: Worker_execute_def Let_def)
    qed
  qed
  have ports: "allocs s < allocs s' \<and> available_port w' = Some (ephemeral s (allocs s' - 1))"
    if "LocalWorker_start fuel (w, s) = Return () (w', s')"
    using LocalWorker_start_frame [of "(w, s)" fuel] that flag
    by (auto simp add: frame_def assign_port_simps Let_def)
  show ?thesis
    using start [OF flag] sanitize remote exec [of w] exec [of w0] registry [of w]
      registry [of w0] ports flag
    by blast
qed

theorem reconnecting_never_reset_witness:
  "reconnecting (started_worker\<lparr>reconnecting := True\<rparr>)
   \<and> after (\<lambda>ws'. reconnecting (fst ws'))
         (LocalWorker_start 1 (started_worker\<lparr>reconnecting := True\<rparr>, restart_world))
   \<and> WORKERS reconnecting_registry (window_id (env reconnecting_registry))
       = Some (started_worker\<lparr>reconnecting := True\<rparr>)
   \<and> after (\<lambda>g'. \<exists>w'. WORKERS g' (window_id (env reconnecting_registry)) = Some w'
                       \<and> reconnecting w')
         (Worker_execute 1 ''cb'' [] reconnecting_registry)
   \<and> LocalWorker_start 1 (started_worker\<lparr>reconnecting := True\<rparr>, restart_world)
     = Return ()
        (started_worker
           \<lparr>reconnecting := True, available_port := Some 54322, process := Some 1,
            client := Some \<lparr>cid = 1, chost = ''localhost'', cport = 54322\<rparr>\<rparr>,
         restart_world
           \<lparr>connections := [(''localhost'', 54322), (''localhost'', 54322)],
            allocs := 2,
            spawned := [[''python''],
                        [''python'', ''-B'', ''anaconda_lib/../anaconda_server/jsonserver.py'',
                         ''-p'', ''proj'', ''54322'', ''4242'']],
            clients := 2, logged := [LogStarting]\<rparr>)
   \<and> allocs restart_world < 2
   \<and> LocalWorker_start 1 (started_worker\<lparr>reconnecting := True\<rparr>, wedged_world)
     = Return ()
        (started_worker\<lparr>reconnecting := True\<rparr>,
         wedged_world
           \<lparr>connections := [(''localhost'', 54321), (''localhost'', 54321),
                            (''localhost'', 54321), (''localhost'', 54321),
                            (''localhost'', 54321), (''localhost'', 54321)],
            allocs := 2, killed := [0, 0], closed_clients := [0, 0],
            logged := [LogError RecursionError, LogTraceback]\<rparr>)
   \<and> allocs wedged_world < 2
   \<and> client started_worker = Some \<lparr>cid = 0, chost = ''localhost'', cport = 54321\<rparr>
   \<and> \<not> client_connected dropped_world 0
   \<and> after (\<lambda>ws'. reconnecting (fst ws'))
         (LocalWorker__execute 1 ''cb'' [] (started_worker, dropped_world))
   \<and> WORKERS dropped_registry (window_id (env dropped_registry)) = Some started_worker
   \<and> after (\<lambda>g'. \<exists>w'. WORKERS g' (window_id (env dropped_registry)) = Some w'
                       \<and> reconnecting w')
         (Worker_execute 1 ''cb'' [] dropped_registry)"
proof -
  have flag: "reconnecting (started_worker\<lparr>reconnecting := True\<rparr>)" by simp
  have c: "client started_worker = Some \<lparr>cid = 0, chost = ''localhost'', cport = 54321\<rparr>"
    by (simp add: fixture_defs)
  have stored: "WORKERS reconnecting_registry (window_id (env reconnecting_registry))
       = Some (started_worker\<lparr>reconnecting := True\<rparr>)"
    by (simp add: fixture_defs)
  have stored': "WORKERS dropped_registry (window_id (env dropped_registry)) = Some started_worker"
    by (simp add: fixture_defs)
  have dropped: "\<not> client_connected dropped_world 0" "\<not> client_connected (env dropped_registry) 0"
    by (simp_all add: fixture_defs)
  have alloc: "allocs restart_world < 2" by (simp add: fixture_defs)
  note kept = reconnecting_never_reset [OF flag, of 1 restart_world "''cb''" "[]"
      reconnecting_registry _ _ started_worker
      "\<lparr>cid = 0, chost = ''localhost'', cport = 54321\<rparr>"]
  note set = reconnecting_never_reset [OF flag, of 1 dropped_world "''cb''" "[]"
      dropped_registry _ _ started_worker
      "\<lparr>cid = 0, chost = ''localhost'', cport = 54321\<rparr>"]
  have k1: "after (\<lambda>ws'. reconnecting (fst ws'))
         (LocalWorker_start 1 (started_worker\<lparr>reconnecting := True\<rparr>, restart_world))"
    by (rule kept [THEN conjunct1])
  have k5: "after (\<lambda>g'. \<exists>w'. WORKERS g' (window_id (env reconnecting_registry)) = Some w'
                       \<and> reconnecting w')
         (Worker_execute 1 ''cb'' [] reconnecting_registry)"
    by (rule kept [THEN conjunct2, THEN conjunct2, THEN conjunct2, THEN conjunct2,
          THEN conjunct1, THEN mp, OF stored])
  have k6: "allocs restart_world < 2"
    using kept [THEN conjunct2, THEN conjunct2, THEN conjunct2, THEN conjunct2,
          THEN conjunct2, THEN conjunct1, THEN mp, OF reconnect_run]
    by simp
  have s7: "after (\<lambda>ws'. reconnecting (fst ws'))
         (LocalWorker__execute 1 ''cb'' [] (started_worker, dropped_world))"
    using set [THEN conjunct2, THEN conjunct2, THEN conjunct2, THEN conjunct2,
          THEN conjunct2, THEN conjunct2, THEN conjunct1] c dropped(1)
    by simp
  have s8: "after (\<lambda>g'. \<exists>w'. WORKERS g' (window_id (env dropped_registry)) = Some w'
                       \<and> reconnecting w')
         (Worker_execute 1 ''cb'' [] dropped_registry)"
    using set [THEN conjunct2, THEN conjunct2, THEN conjunct2, THEN conjunct2,
          THEN conjunct2, THEN conjunct2, THEN conjunct2] c dropped(2) stored'
    by simp
  note wedged = reconnecting_never_reset [OF flag, of 1 wedged_world "''cb''" "[]"
      reconnecting_registry _ _ started_worker
      "\<lparr>cid = 0, chost = ''localhost'', cport = 54321\<rparr>"]
  have w6: "allocs wedged_world < 2"
    using wedged [THEN conjunct2, THEN conjunct2, THEN conjunct2, THEN conjunct2,
          THEN conjunct2, THEN conjunct1, THEN mp, OF wedged_reconnect_run]
    by simp
  from flag k1 stored k5 reconnect_run k6 wedged_reconnect_run w6 c dropped(1) s7 stored' s8
  show ?thesis by (intro conjI)
qed

subsection \<open>The first start of a local worker\<close>

text \<open>
  When the connections are refused \<open>k\<close> times and then accepted, the waiting loop
  returns after \<open>k + 1\<close> probes; when the settings are usable and process creation
  succeeds, \<open>build_server\<close> returns with a new process.
\<close>

lemma wait_active_connects:
  assumes "hostname w = Some h" and "available_port w = Some p"
    and "\<And>i. i < k \<Longrightarrow> net s (length (connections s) + i) = Refused"
    and "net s (length (connections s) + k) = Connected"
    and "k < fuel"
  shows "wait_active fuel (w, s)
           = Return () (w, s\<lparr>connections := connections s @ replicate (Suc k) (h, p)\<rparr>)"
  using assms
proof (induction k arbitrary: s fuel)
  case 0
  then obtain n where "fuel = Suc n" by (cases fuel) simp_all
  with 0 show ?case by (simp add: server_is_active_def Let_def)
next
  case (Suc k)
  then obtain n where fuel: "fuel = Suc n" and n: "k < n" by (cases fuel) simp_all
  define s1 where "s1 = s\<lparr>connections := connections s @ [(h, p)]\<rparr>"
  have first: "net s (length (connections s)) = Refused"
    using Suc.prems(3) [of 0] by simp
  have step: "server_is_active (w, s) = Return False (w, s1)"
    using Suc.prems(1,2) first by (simp add: server_is_active_def Let_def s1_def)
  have refused: "net s1 (length (connections s1) + i) = Refused" if "i < k" for i
    using Suc.prems(3) [of "Suc i"] that by (simp add: s1_def)
  have conn: "net s1 (length (connections s1) + k) = Connected"
    using Suc.prems(4) by (simp add: s1_def)
  have "wait_active n (w, s1)
          = Return () (w, s1\<lparr>connections := connections s1 @ replicate (Suc k) (h, p)\<rparr>)"
    by (rule Suc.IH [OF Suc.prems(1,2) refused conn n])
  then show ?case
    by (simp add: fuel step s1_def)
qed

lemma build_server_returns:
  assumes "extra_paths s \<noteq> Some SOther" and "\<And>args. \<not> spawn_fails s args"
  shows "\<exists>s'. LocalWorker_build_server (w, s)
                 = Return () (w\<lparr>process := Some (length (spawned s))\<rparr>, s')
              \<and> net s' = net s \<and> connections s' = connections s
              \<and> sent s' = sent s \<and> clients s' = clients s"
proof (cases "case extra_paths s of None \<Rightarrow> SList [] | Some v \<Rightarrow> v")
  case (SList ps)
  with assms(2) show ?thesis
    by (simp add: LocalWorker_build_server_def build_server_paths_def create_subprocess_def
        Let_def)
next
  case (SStr str)
  with assms(2) show ?thesis
    by (simp add: LocalWorker_build_server_def build_server_paths_def create_subprocess_def
        error_message_def Let_def)
next
  case SOther
  with assms(1) show ?thesis by (simp split: option.splits)
qed

lemma LocalWorker_first_start:
  assumes paths: "extra_paths s \<noteq> Some SOther"
    and spawn: "\<And>args. \<not> spawn_fails s args"
    and refused: "\<And>i. i \<le> k \<Longrightarrow> net s (length (connections s) + i) = Refused"
    and conn: "net s (length (connections s) + Suc k) = Connected"
    and fuel: "k < fuel"
  shows "\<exists>w' s'. LocalWorker_start fuel (BaseWorker_init Local, s) = Return () (w', s')
           \<and> sent s' = sent s \<and> kind w' = Local
           \<and> hostname w' = Some ''localhost''
           \<and> available_port w' = Some (ephemeral s (allocs s))
           \<and> client w' = Some \<lparr>cid = clients s, chost = ''localhost'',
                                 cport = ephemeral s (allocs s)\<rparr>"
proof -
  define p where "p = ephemeral s (allocs s)"
  define w1 where "w1 = (BaseWorker_init Local)\<lparr>available_port := Some p\<rparr>"
  define s1 where "s1 = s\<lparr>allocs := Suc (allocs s)\<rparr>"
  define s2 where
    "s2 = log_entry_add LogStarting (s1\<lparr>connections := connections s1 @ [(''localhost'', p)]\<rparr>)"
  have w1: "hostname w1 = Some ''localhost''" "available_port w1 = Some p"
    "reconnecting w1 = False" "kind w1 = Local"
    by (simp_all add: w1_def BaseWorker_init_def)
  have assign: "LocalWorker_assign_port (BaseWorker_init Local, s) = (w1, s1)"
    by (simp add: assign_port_simps w1_def s1_def p_def)
  have act: "server_is_active (w1, s1)
      = Return False (w1, s1\<lparr>connections := connections s1 @ [(''localhost'', p)]\<rparr>)"
    using refused [of 0] by (simp add: server_is_active_def w1 s1_def Let_def)
  have s2: "extra_paths s2 = extra_paths s" "spawn_fails s2 = spawn_fails s" "net s2 = net s"
    "connections s2 = connections s @ [(''localhost'', p)]" "sent s2 = sent s"
    "clients s2 = clients s"
    by (simp_all add: s2_def s1_def log_entry_add_def)
  have "\<exists>s3. LocalWorker_build_server (w1, s2)
                 = Return () (w1\<lparr>process := Some (length (spawned s2))\<rparr>, s3)
              \<and> net s3 = net s2 \<and> connections s3 = connections s2
              \<and> sent s3 = sent s2 \<and> clients s3 = clients s2"
    by (rule build_server_returns) (simp_all add: s2 paths spawn)
  then obtain s3 where
    build: "LocalWorker_build_server (w1, s2)
              = Return () (w1\<lparr>process := Some (length (spawned s2))\<rparr>, s3)"
    and s3: "net s3 = net s" "connections s3 = connections s @ [(''localhost'', p)]"
      "sent s3 = sent s" "clients s3 = clients s"
    by (auto simp add: s2)
  define w2 where "w2 = w1\<lparr>process := Some (length (spawned s2))\<rparr>"
  have w2: "hostname w2 = Some ''localhost''" "available_port w2 = Some p" "kind w2 = Local"
    by (simp_all add: w2_def w1)
  have sjs: "LocalWorker_start_json_server (w1, s1) = Return () (w2, s3)"
    using build
    by (simp add: LocalWorker_start_json_server_def start_json_server_def act s2_def w2_def)
  define s4 where
    "s4 = s3\<lparr>connections := connections s3 @ replicate (Suc k) (''localhost'', p)\<rparr>"
  have wait: "wait_active fuel (w2, s3) = Return () (w2, s4)"
    unfolding s4_def
  proof (rule wait_active_connects [OF w2(1,2) _ _ fuel])
    fix i assume "i < k"
    then show "net s3 (length (connections s3) + i) = Refused"
      using refused [of "Suc i"] by (simp add: s3)
  next
    show "net s3 (length (connections s3) + k) = Connected"
      using conn by (simp add: s3)
  qed
  define w5 where
    "w5 = w2\<lparr>client := Some \<lparr>cid = clients s, chost = ''localhost'', cport = p\<rparr>\<rparr>"
  have bind: "bind_client (w2, s4) = Return () (w5, s4\<lparr>clients := Suc (clients s4)\<rparr>)"
    by (simp add: bind_client_def AsynClient_def w2 w5_def s4_def s3)
  have body: "LocalWorker_start_try fuel (w1, s1)
      = Return () (w5, s4\<lparr>clients := Suc (clients s4)\<rparr>)"
    by (simp add: LocalWorker_start_try_def w1 sjs wait bind)
  have start: "LocalWorker_start fuel (BaseWorker_init Local, s)
      = Return () (w5, s4\<lparr>clients := Suc (clients s4)\<rparr>)"
  proof -
    have "available_port (BaseWorker_init Local) = None"
      by (simp add: BaseWorker_init_def)
    then show ?thesis
      by (simp add: LocalWorker_start_def assign body)
  qed
  have "sent (s4\<lparr>clients := Suc (clients s4)\<rparr>) = sent s"
    by (simp add: s4_def s3)
  moreover have "hostname w5 = Some ''localhost''" "available_port w5 = Some p" "kind w5 = Local"
    "client w5 = Some \<lparr>cid = clients s, chost = ''localhost'', cport = p\<rparr>"
    by (simp_all add: w5_def w2)
  ultimately show ?thesis
    using start unfolding p_def by blast
qed

subsection \<open>The registry\<close>

lemma first_execute_run:
  assumes none: "WORKERS g (window_id (env g)) = None"
    and local: "vagrant_environment (env g) = None"
    and paths: "extra_paths (env g) \<noteq> Some SOther"
    and spawn: "\<And>args. \<not> spawn_fails (env g) args"
    and refused: "\<And>i. i \<le> k \<Longrightarrow> net (env g) (length (connections (env g)) + i) = Refused"
    and conn: "net (env g) (length (connections (env g)) + Suc k) = Connected"
    and fuel: "k < fuel"
  shows "\<exists>g' w'. Worker_execute fuel cb data g = Return () g'
           \<and> WORKERS g' (window_id (env g)) = Some w' \<and> kind w' = Local
           \<and> hostname w' = Some ''localhost''
           \<and> available_port w' = Some (ephemeral (env g) (allocs (env g)))
           \<and> client w' = Some \<lparr>cid = clients (env g), chost = ''localhost'',
                                 cport = ephemeral (env g) (allocs (env g))\<rparr>
           \<and> sent (env g') = sent (env g)"
proof -
  obtain w' s' where
    start: "LocalWorker_start fuel (BaseWorker_init Local, env g) = Return () (w', s')"
    and s': "sent s' = sent (env g)"
    and w': "kind w' = Local" "hostname w' = Some ''localhost''"
      "available_port w' = Some (ephemeral (env g) (allocs (env g)))"
      "client w' = Some \<lparr>cid = clients (env g), chost = ''localhost'',
                           cport = ephemeral (env g) (allocs (env g))\<rparr>"
    using LocalWorker_first_start [OF paths spawn refused conn fuel] by blast
  define g1 where
    "g1 = g\<lparr>WORKERS := (WORKERS g)(window_id (env g) \<mapsto> BaseWorker_init Local)\<rparr>"
  have construct: "Worker_construct fuel g = Return () g1"
    by (simp add: Worker_construct_def vagrant_is_active_def local g1_def)
  have fresh: "kind (BaseWorker_init Local) = Local" "client (BaseWorker_init Local) = None"
    by (simp_all add: BaseWorker_init_def)
  have stored: "stored_start fuel (window_id (env g)) (BaseWorker_init Local) g1
      = Return () \<lparr>WORKERS = (WORKERS g1)(window_id (env g) \<mapsto> w'), env = s'\<rparr>"
    by (simp add: stored_start_def worker_start_def fresh g1_def start)
  have "Worker_execute fuel cb data g
      = Return () \<lparr>WORKERS = (WORKERS g1)(window_id (env g) \<mapsto> w'), env = s'\<rparr>"
    using stored by (simp add: Worker_execute_def none construct fresh g1_def)
  then show ?thesis using s' w' by simp
qed

lemma first_call_facts:
  "WORKERS first_call_registry (window_id (env first_call_registry)) = None"
  "vagrant_environment (env first_call_registry) = None"
  "extra_paths (env first_call_registry) \<noteq> Some SOther"
  "\<not> spawn_fails (env first_call_registry) args"
  "i \<le> 3 \<Longrightarrow> net (env first_call_registry)
                  (length (connections (env first_call_registry)) + i) = Refused"
  "net (env first_call_registry) (length (connections (env first_call_registry)) + Suc 3)
     = Connected"
  "sent (env first_call_registry) = []"
  "window_id (env first_call_registry) = 1"
  "clients (env first_call_registry) = 0"
  "ephemeral (env first_call_registry) (allocs (env first_call_registry)) = 54321"
  by (simp_all add: first_call_registry_def quiet_world_def)

text \<open>
  Claim C1 says that the first \<open>execute\<close> of a session, once the server has become
  reachable, binds a client and forwards the pending command exactly once.  In the
  scenario (port 54321, the probe of \<open>start_json_server\<close> and three polls refused, then
  a connection) the call returns and no command was sent through any client: with no
  client bound, \<open>execute\<close> only starts the worker, and the command it was given is
  lost, although its docstring promises to execute it and \<open>_execute\<close> sends after a
  start.
\<close>

theorem first_execute_forwards_nothing:
  "commands_sent (Worker_execute 4 ''complete'' [] first_call_registry) = Some 0
   \<and> commands_sent (Worker_execute 4 ''complete'' [] first_call_registry) \<noteq> Some 1"
proof -
  have fuel: "(3::nat) < 4" by simp
  obtain g' where "Worker_execute 4 ''complete'' [] first_call_registry = Return () g'"
    and "sent (env g') = sent (env first_call_registry)"
    using first_execute_run [OF first_call_facts(1,2,3,4,5,6) fuel, of "''complete''" "[]"]
    by blast
  then show ?thesis
    by (simp add: commands_sent_def first_call_facts(7))
qed

text \<open>
  Claim C4 says that \<open>execute\<close> never raises to its caller, in particular when the
  construction of the worker fails.  With a vagrant environment that has no \<open>network\<close>
  key and no worker stored, construction fails with KeyError, which is caught and logged,
  nothing is stored, and the lookup \<open>WORKERS[window_id]\<close> that follows raises KeyError
  out of \<open>execute\<close>.
\<close>

theorem execute_raises_after_failed_construction:
  "Worker_execute fuel cb data
      \<lparr>WORKERS = Map.empty, env = quiet_world\<lparr>vagrant_environment := Some no_network_config\<rparr>\<rparr>
   = Raise KeyError
      \<lparr>WORKERS = Map.empty,
        env = log_entry_add LogTraceback (log_entry_add (LogError KeyError)
                (quiet_world\<lparr>vagrant_environment := Some no_network_config\<rparr>))\<rparr>"
  by (simp add: Worker_execute_def Worker_construct_def vagrant_is_active_def
      RemoteWorker_init_def check_config_def BaseWorker_init_def no_network_config_def
      quiet_world_def Let_def log_entry_add_def)

end
